theory Spec2Isabelle
  imports Main
begin

section \<open>Python values, exceptions and string primitives\<close>

text \<open>
  The exceptions that the modelled functions can raise. Every \<^verbatim>\<open>raise\<close>, failed
  \<^verbatim>\<open>assert\<close> and failing builtin of the source is a branch returning \<open>Inl\<close>.
\<close>

datatype pyerror =
    ValueError
  | IndexError
  | KeyError
  | AssertionError
  | UnboundLocalError
  | SlotNotReadyError

text \<open>A bound of a slice is \<^verbatim>\<open>None\<close> or an (unbounded) Python integer.\<close>

datatype pyval = PyNone | PyInt int

text \<open>Python's \<^verbatim>\<open>slice(start, stop, step)\<close> object; equality compares all three fields.\<close>

datatype pyslice = Slice (slice_start: pyval) (slice_stop: pyval) (slice_step: pyval)

text \<open>\<^verbatim>\<open>slice(start, stop)\<close>: the two-argument constructor leaves the step \<^verbatim>\<open>None\<close>.\<close>

definition slice2 :: "pyval \<Rightarrow> pyval \<Rightarrow> pyslice" where
  "slice2 a b = Slice a b PyNone"

subsection \<open>\<^verbatim>\<open>str\<close> of an integer\<close>

definition digit_char :: "nat \<Rightarrow> char" where
  "digit_char d = char_of (48 + d)"

fun str_nat :: "nat \<Rightarrow> string" where
  "str_nat n = (if n < 10 then [digit_char n] else str_nat (n div 10) @ [digit_char (n mod 10)])"

declare str_nat.simps [simp del]

definition str_int :: "int \<Rightarrow> string" where
  "str_int i = (if i < 0 then CHR ''-'' # str_nat (nat (- i)) else str_nat (nat i))"

fun py_str :: "pyval \<Rightarrow> string" where
  "py_str PyNone = ''None''"
| "py_str (PyInt i) = str_int i"

subsection \<open>\<^verbatim>\<open>int\<close> of a string\<close>

text \<open>
  \<^verbatim>\<open>int(s)\<close> on a string: surrounding whitespace is stripped, one sign is allowed, and the
  rest must be a non-empty run of decimal digits; anything else raises \<^verbatim>\<open>ValueError\<close>.
\<close>

definition is_digit :: "char \<Rightarrow> bool" where
  "is_digit c = (48 \<le> (of_char c :: nat) \<and> (of_char c :: nat) \<le> 57)"

definition digit_val :: "char \<Rightarrow> nat" where
  "digit_val c = of_char c - 48"

definition digits_val :: "string \<Rightarrow> nat" where
  "digits_val s = foldl (\<lambda>acc c. 10 * acc + digit_val c) 0 s"

definition is_space :: "char \<Rightarrow> bool" where
  "is_space c = ((of_char c :: nat) \<in> {9, 10, 11, 12, 13, 32})"

definition strip :: "string \<Rightarrow> string" where
  "strip s = rev (dropWhile is_space (rev (dropWhile is_space s)))"

definition parse_digits :: "string \<Rightarrow> pyerror + nat" where
  "parse_digits s = (if s \<noteq> [] \<and> list_all is_digit s then Inr (digits_val s) else Inl ValueError)"

fun parse_signed :: "string \<Rightarrow> pyerror + int" where
  "parse_signed [] = Inl ValueError"
| "parse_signed (c # cs) =
     (if c = CHR ''-'' then map_sum id (\<lambda>n. - int n) (parse_digits cs)
      else if c = CHR ''+'' then map_sum id int (parse_digits cs)
      else map_sum id int (parse_digits (c # cs)))"

definition py_int :: "string \<Rightarrow> pyerror + int" where
  "py_int s = parse_signed (strip s)"

subsection \<open>\<^verbatim>\<open>str.split(sep)\<close> for a one-character separator\<close>

fun split_on :: "char \<Rightarrow> string \<Rightarrow> string list" where
  "split_on sep [] = [[]]"
| "split_on sep (c # cs) =
     (if c = sep then [] # split_on sep cs
      else (c # hd (split_on sep cs)) # tl (split_on sep cs))"

section \<open>PixelClassificationSerializer: slicings as strings\<close>

text \<open>
  \<^verbatim>\<open>slicingToString\<close>: the loop appends \<^verbatim>\<open>str(s.start) + ':' + str(s.stop) + ','\<close> for
  each slice to the accumulator that starts as \<^verbatim>\<open>'['\<close>; then the last character is
  dropped (\<^verbatim>\<open>strSlicing[:-1]\<close>) and \<^verbatim>\<open>']'\<close> is appended.
\<close>

fun slicingToString_loop :: "pyslice list \<Rightarrow> string \<Rightarrow> string" where
  "slicingToString_loop [] strSlicing = strSlicing"
| "slicingToString_loop (s # slicing) strSlicing =
     slicingToString_loop slicing
       (strSlicing @ py_str (slice_start s) @ '':'' @ py_str (slice_stop s) @ '','')"

definition slicingToString :: "pyslice list \<Rightarrow> string" where
  "slicingToString slicing = butlast (slicingToString_loop slicing ''['') @ '']''"

text \<open>
  \<^verbatim>\<open>stringToSlicing\<close>: \<^verbatim>\<open>strSlicing[1:-1]\<close> is \<open>butlast (tl s)\<close> for every string (also
  for strings shorter than two characters, where it is empty). Each piece is split at
  \<^verbatim>\<open>':'\<close>; \<^verbatim>\<open>int(ends[0])\<close> is evaluated before \<^verbatim>\<open>ends[1]\<close> is read, so a piece without
  a colon raises \<^verbatim>\<open>ValueError\<close> or \<^verbatim>\<open>IndexError\<close> in that order.
\<close>

definition parse_ends :: "string \<Rightarrow> pyerror + pyslice" where
  "parse_ends s =
     (let ends = split_on CHR '':'' s in
      case py_int (hd ends) of
        Inl e \<Rightarrow> Inl e
      | Inr start \<Rightarrow>
          (case tl ends of
             [] \<Rightarrow> Inl IndexError
           | e1 # _ \<Rightarrow>
               (case py_int e1 of
                  Inl e \<Rightarrow> Inl e
                | Inr stop \<Rightarrow> Inr (slice2 (PyInt start) (PyInt stop)))))"

fun stringToSlicing_loop :: "string list \<Rightarrow> pyslice list \<Rightarrow> pyerror + pyslice list" where
  "stringToSlicing_loop [] slicing = Inr slicing"
| "stringToSlicing_loop (s # sliceStrings) slicing =
     (case parse_ends s of
        Inl e \<Rightarrow> Inl e
      | Inr sl \<Rightarrow> stringToSlicing_loop sliceStrings (slicing @ [sl]))"

definition stringToSlicing :: "string \<Rightarrow> pyerror + pyslice list" where
  "stringToSlicing strSlicing =
     stringToSlicing_loop (split_on CHR '','' (butlast (tl strSlicing))) []"

text \<open>
  A slice of an ROI: \<^verbatim>\<open>slice(start, stop)\<close> with integer, non-negative bounds and no step.
\<close>

definition roi_slice :: "pyslice \<Rightarrow> bool" where
  "roi_slice s =
     (case s of
        Slice (PyInt a) (PyInt b) PyNone \<Rightarrow> 0 \<le> a \<and> 0 \<le> b
      | _ \<Rightarrow> False)"

text \<open>The text one slice contributes to the serialized form, without the comma.\<close>

definition slice_item :: "pyslice \<Rightarrow> string" where
  "slice_item s = py_str (slice_start s) @ '':'' @ py_str (slice_stop s)"

section \<open>Regions of interest, dirty notifications and arrays\<close>

text \<open>
  The \<^verbatim>\<open>roi\<close> object handed to \<^verbatim>\<open>execute\<close> and \<^verbatim>\<open>propagateDirty\<close>: the source reads its
  fields \<^verbatim>\<open>roi.start\<close> and \<^verbatim>\<open>roi.stop\<close>, one integer per axis.
\<close>

record roi =
  roi_start :: "int list"
  roi_stop :: "int list"

text \<open>
  What the source passes to \<^verbatim>\<open>setDirty\<close>: a start and a stop tuple, a slice, or the
  \<^verbatim>\<open>roi\<close> object itself.
\<close>

datatype dirty_arg =
    DirtyStartStop "int list" "int list"
  | DirtySlice pyslice
  | DirtyRoi roi

datatype 's dirty_call = SetDirty 's dirty_arg

text \<open>
  Modelled from the spec: the region that the engine's \<^verbatim>\<open>setDirty\<close> (not in the sources)
  gives to a slot of shape \<open>shp\<close>. The spec's data model says that a full-extent dirty region
  is represented by the unbounded marker and means the entire volume; a start and stop pair
  means that box.
\<close>

fun dirty_region :: "int list \<Rightarrow> dirty_arg \<Rightarrow> (int list \<times> int list) option" where
  "dirty_region shp (DirtyStartStop a b) = Some (a, b)"
| "dirty_region shp (DirtyRoi r) = Some (roi_start r, roi_stop r)"
| "dirty_region shp (DirtySlice s) =
     (if s = Slice PyNone PyNone PyNone then Some (map (\<lambda>_. 0) shp, shp) else None)"

text \<open>The \<^verbatim>\<open>stop - start\<close> of an ROI, axis by axis.\<close>

definition extent :: "roi \<Rightarrow> int list" where
  "extent r = map2 (\<lambda>b a. b - a) (roi_stop r) (roi_start r)"

text \<open>The spec's invariant of an ROI: as many stops as starts, and \<open>stop \<ge> start\<close> on every axis.\<close>

definition valid_roi :: "roi \<Rightarrow> bool" where
  "valid_roi r = list_all2 (\<le>) (roi_start r) (roi_stop r)"

definition in_roi :: "roi \<Rightarrow> int list \<Rightarrow> bool" where
  "in_roi r p = (list_all2 (\<le>) (roi_start r) p \<and> list_all2 (<) p (roi_stop r))"

text \<open>The positions of the box from \<open>start\<close> to \<open>stop\<close> in row-major (C) order.\<close>

fun coords :: "int list \<Rightarrow> int list \<Rightarrow> int list list" where
  "coords [] [] = [[]]"
| "coords (a # as) (b # bs) = concat (map (\<lambda>x. map ((#) x) (coords as bs)) [a..b - 1])"
| "coords [] (b # bs) = []"
| "coords (a # as) [] = []"

text \<open>A numpy array: its shape and its elements in row-major order.\<close>

record ndarray =
  shape :: "int list"
  data :: "int list"

fun ravel_index :: "int list \<Rightarrow> int list \<Rightarrow> nat" where
  "ravel_index (n # ns) (i # idx) = nat i * nat (prod_list ns) + ravel_index ns idx"
| "ravel_index _ _ = 0"

text \<open>The element of an array at an index that lies inside its shape.\<close>

definition element_at :: "ndarray \<Rightarrow> int list \<Rightarrow> int option" where
  "element_at a idx =
     (if list_all2 (\<lambda>i n. 0 \<le> i \<and> i < n) idx (shape a)
      then Some (data a ! ravel_index (shape a) idx) else None)"

text \<open>
  The data behind an upstream slot, as a function of the absolute position; \<open>None\<close> when the
  slot is not ready.
\<close>

type_synonym volume = "int list \<Rightarrow> int"

text \<open>
  Modelled from the spec: the engine's request on an input slot, which is not in the sources.
  \<^verbatim>\<open>slot(start, stop).wait()\<close> returns a new array of the roi extent holding the slot's data
  over the roi; a read of a slot that is not ready raises. \<^verbatim>\<open>writeInto(result)\<close> makes the
  request fill the given destination, which must have the shape of the roi extent.
\<close>

definition slot_wait :: "volume option \<Rightarrow> roi \<Rightarrow> pyerror + ndarray" where
  "slot_wait vol r =
     (case vol of
        None \<Rightarrow> Inl SlotNotReadyError
      | Some v \<Rightarrow> Inr \<lparr>shape = extent r, data = map v (coords (roi_start r) (roi_stop r))\<rparr>)"

definition slot_writeInto_wait :: "volume option \<Rightarrow> roi \<Rightarrow> ndarray \<Rightarrow> pyerror + ndarray" where
  "slot_writeInto_wait vol r result =
     (case vol of
        None \<Rightarrow> Inl SlotNotReadyError
      | Some v \<Rightarrow>
          if shape result = extent r
          then Inr (result\<lparr>data := map v (coords (roi_start r) (roi_stop r))\<rparr>)
          else Inl AssertionError)"

text \<open>
  Modelled from the spec: the destination that the engine allocates for a request on an output
  slot. The spec says only that it is pre-allocated with the shape of the roi extent; numpy
  leaves its contents unspecified, so they are the parameter \<open>junk\<close>, which gives the element
  that happens to lie at each flat index.
\<close>

definition allocate :: "int list \<Rightarrow> (nat \<Rightarrow> int) \<Rightarrow> ndarray" where
  "allocate shp junk = \<lparr>shape = shp, data = map junk [0..<nat (prod_list shp)]\<rparr>"

text \<open>An array is well formed when it holds as many elements as its shape says.\<close>

definition well_formed :: "ndarray \<Rightarrow> bool" where
  "well_formed a = (length (data a) = nat (prod_list (shape a)))"

subsection \<open>The numpy operations that the operators use\<close>

text \<open>\<^verbatim>\<open>result[:] = c\<close> for a scalar \<open>c\<close>.\<close>

definition fill :: "int \<Rightarrow> ndarray \<Rightarrow> ndarray" where
  "fill c result = result\<lparr>data := map (\<lambda>_. c) (data result)\<rparr>"

text \<open>\<^verbatim>\<open>numpy.where(a == v, x, y)\<close> for scalars \<open>v\<close>, \<open>x\<close> and \<open>y\<close>.\<close>

definition where_eq :: "ndarray \<Rightarrow> int \<Rightarrow> int \<Rightarrow> int \<Rightarrow> ndarray" where
  "where_eq a v x y = \<lparr>shape = shape a, data = map (\<lambda>e. if e = v then x else y) (data a)\<rparr>"

text \<open>
  \<^verbatim>\<open>numpy.where(a == v, b, y)\<close> for an array \<open>b\<close> and scalars \<open>v\<close> and \<open>y\<close>, and
  \<^verbatim>\<open>result[:] = src\<close> for an array \<open>src\<close>. Both are modelled for operands of one shape, which
  is what the operators give them; numpy's broadcasting of different shapes is not modelled
  and is a \<^verbatim>\<open>ValueError\<close> here.
\<close>

definition where_eq_array :: "ndarray \<Rightarrow> int \<Rightarrow> ndarray \<Rightarrow> int \<Rightarrow> pyerror + ndarray" where
  "where_eq_array a v b y =
     (if shape a = shape b
      then Inr \<lparr>shape = shape a, data = map2 (\<lambda>e x. if e = v then x else y) (data a) (data b)\<rparr>
      else Inl ValueError)"

definition assign_all :: "ndarray \<Rightarrow> ndarray \<Rightarrow> pyerror + ndarray" where
  "assign_all result src =
     (if shape src = shape result then Inr (result\<lparr>data := data src\<rparr>) else Inl ValueError)"

section \<open>OpHighlightLabel\<close>

datatype highlight_slot = Input | HighlightLabel | Output

text \<open>What the operator's two input slots currently deliver.\<close>

record OpHighlightLabel =
  Input_volume :: "volume option"
  HighlightLabel_value :: "int option"

text \<open>\<^verbatim>\<open>OpHighlightLabel.execute\<close>; the \<^verbatim>\<open>assert\<close> on the slot is its first statement.\<close>

definition OpHighlightLabel_execute ::
  "OpHighlightLabel \<Rightarrow> highlight_slot \<Rightarrow> nat list \<Rightarrow> roi \<Rightarrow> ndarray \<Rightarrow> pyerror + ndarray" where
  "OpHighlightLabel_execute op slot subindex r result =
     (if slot \<noteq> Output then Inl AssertionError
      else case HighlightLabel_value op of
        None \<Rightarrow> Inl SlotNotReadyError
      | Some label \<Rightarrow>
          if label = 0 then Inr (fill 0 result)
          else (case slot_writeInto_wait (Input_volume op) r result of
                  Inl e \<Rightarrow> Inl e
                | Inr result1 \<Rightarrow> assign_all result1 (where_eq result1 label 1 0)))"

text \<open>\<^verbatim>\<open>OpHighlightLabel.propagateDirty\<close>: the list of \<^verbatim>\<open>setDirty\<close> calls it makes.\<close>

definition OpHighlightLabel_propagateDirty ::
  "highlight_slot \<Rightarrow> nat list \<Rightarrow> roi \<Rightarrow> pyerror + highlight_slot dirty_call list" where
  "OpHighlightLabel_propagateDirty slot subindex r =
     (if slot = Input then Inr [SetDirty Output (DirtyStartStop (roi_start r) (roi_stop r))]
      else if slot = HighlightLabel then Inr [SetDirty Output (DirtySlice (Slice PyNone PyNone PyNone))]
      else Inl AssertionError)"

text \<open>\<^verbatim>\<open>OpHighlightLabel.setupOutputs\<close>: \<^verbatim>\<open>self.Output.meta.assignFrom(self.Input.meta)\<close>.\<close>

definition OpHighlightLabel_setupOutputs :: "(highlight_slot \<Rightarrow> 'm) \<Rightarrow> (highlight_slot \<Rightarrow> 'm)" where
  "OpHighlightLabel_setupOutputs meta = meta(Output := meta Input)"

section \<open>OpSplitBodyCarving\<close>

text \<open>
  The slots that the class declares, \<^verbatim>\<open>Segmentation\<close>, which it inherits from \<^verbatim>\<open>OpCarving\<close> and
  uses, and the other inherited slots by name.
\<close>

datatype carving_slot =
    RavelerLabels
  | CurrentRavelerLabel
  | HighlightedRavelerObject
  | MaskedSegmentation
  | Segmentation
  | Inherited string

record OpSplitBodyCarving =
  RavelerLabels_volume :: "volume option"
  CurrentRavelerLabel_value :: "int option"
  Segmentation_volume :: "volume option"

text \<open>
  \<^verbatim>\<open>__init__\<close>: the highlighter's \<^verbatim>\<open>HighlightLabel\<close> is connected to \<^verbatim>\<open>CurrentRavelerLabel\<close> and
  its \<^verbatim>\<open>Input\<close> to \<^verbatim>\<open>RavelerLabels\<close>; \<^verbatim>\<open>HighlightedRavelerObject\<close> is connected to its
  \<^verbatim>\<open>Output\<close>, so a request on \<^verbatim>\<open>HighlightedRavelerObject\<close> is served by the highlighter.
\<close>

definition opHighlighter :: "OpSplitBodyCarving \<Rightarrow> OpHighlightLabel" where
  "opHighlighter op =
     \<lparr>Input_volume = RavelerLabels_volume op, HighlightLabel_value = CurrentRavelerLabel_value op\<rparr>"

definition HighlightedRavelerObject_execute ::
  "OpSplitBodyCarving \<Rightarrow> roi \<Rightarrow> ndarray \<Rightarrow> pyerror + ndarray" where
  "HighlightedRavelerObject_execute op r result =
     OpHighlightLabel_execute (opHighlighter op) Output [] r result"

text \<open>
  \<^verbatim>\<open>OpSplitBodyCarving.execute\<close>. \<^verbatim>\<open>OpCarving.execute\<close> is not in the sources and is the
  parameter \<open>super\<close>. The statements after the \<^verbatim>\<open>if\<close>/\<^verbatim>\<open>else\<close> of the source cannot be
  reached, since both branches return.
\<close>

definition OpSplitBodyCarving_execute ::
  "(carving_slot \<Rightarrow> nat list \<Rightarrow> roi \<Rightarrow> ndarray \<Rightarrow> pyerror + ndarray) \<Rightarrow>
   OpSplitBodyCarving \<Rightarrow> carving_slot \<Rightarrow> nat list \<Rightarrow> roi \<Rightarrow> ndarray \<Rightarrow> pyerror + ndarray" where
  "OpSplitBodyCarving_execute super op slot subindex r result =
     (if slot = MaskedSegmentation then
        (case slot_wait (RavelerLabels_volume op) r of
           Inl e \<Rightarrow> Inl e
         | Inr ravelerLabels \<Rightarrow>
             (case slot_writeInto_wait (Segmentation_volume op) r result of
                Inl e \<Rightarrow> Inl e
              | Inr result1 \<Rightarrow>
                  (case CurrentRavelerLabel_value op of
                     None \<Rightarrow> Inl SlotNotReadyError
                   | Some label \<Rightarrow>
                       (case where_eq_array ravelerLabels label result1 0 of
                          Inl e \<Rightarrow> Inl e
                        | Inr masked \<Rightarrow> assign_all result1 masked))))
      else super slot subindex r result)"

text \<open>
  \<^verbatim>\<open>OpSplitBodyCarving.propagateDirty\<close>; \<^verbatim>\<open>OpCarving.propagateDirty\<close> is the parameter
  \<open>super\<close>.
\<close>

definition OpSplitBodyCarving_propagateDirty ::
  "(carving_slot \<Rightarrow> nat list \<Rightarrow> roi \<Rightarrow> pyerror + carving_slot dirty_call list) \<Rightarrow>
   carving_slot \<Rightarrow> nat list \<Rightarrow> roi \<Rightarrow> pyerror + carving_slot dirty_call list" where
  "OpSplitBodyCarving_propagateDirty super slot subindex r =
     (if slot = RavelerLabels
      then Inr [SetDirty MaskedSegmentation (DirtyStartStop (roi_start r) (roi_stop r))]
      else if slot = CurrentRavelerLabel
      then Inr [SetDirty MaskedSegmentation (DirtySlice (Slice PyNone PyNone PyNone))]
      else super slot subindex r)"

text \<open>
  Modelled from the spec: a request \<^verbatim>\<open>slot(start, stop).wait()\<close> on an output slot, which the
  engine (not in the sources) serves by allocating the destination, whatever its contents
  \<open>junk\<close>, and calling \<^verbatim>\<open>execute\<close>; the caller receives what \<^verbatim>\<open>execute\<close> returns.
\<close>

definition output_wait ::
  "(roi \<Rightarrow> ndarray \<Rightarrow> pyerror + ndarray) \<Rightarrow> (nat \<Rightarrow> int) \<Rightarrow> roi \<Rightarrow> pyerror + ndarray" where
  "output_wait exec junk r = exec r (allocate (extent r) junk)"

section \<open>setupOutputs and the dirty callbacks of OpSplitBodyCarving\<close>

text \<open>
  \<^verbatim>\<open>handleDirtySegmentation\<close> is defined inside \<^verbatim>\<open>setupOutputs\<close>, so every run of
  \<^verbatim>\<open>setupOutputs\<close> creates a new function object. The number is the identity of that
  object: the count of functions created before it.
\<close>

datatype callback = HandleDirtySegmentation nat

text \<open>
  What the engine holds for an OpSplitBodyCarving: the metadata of each slot, the dirty
  callbacks registered on each slot, and the number of closures created so far.
\<close>

record 'm carving_state =
  slot_meta :: "carving_slot \<Rightarrow> 'm"
  dirty_callbacks :: "carving_slot \<Rightarrow> callback list"
  functions_created :: nat

text \<open>
  Modelled from the spec: \<^verbatim>\<open>Slot.notifyDirty\<close>, which is not in the sources. The spec gives
  each slot a list of observers; any number of independent subscribers may register, and
  registering adds the callback to the list.
\<close>

definition notifyDirty :: "carving_slot \<Rightarrow> callback \<Rightarrow> 'm carving_state \<Rightarrow> 'm carving_state" where
  "notifyDirty slot cb st =
     st\<lparr>dirty_callbacks := (dirty_callbacks st)(slot := dirty_callbacks st slot @ [cb])\<rparr>"

text \<open>
  The body of \<^verbatim>\<open>handleDirtySegmentation(slot, roi)\<close>:
  \<^verbatim>\<open>self.MaskedSegmentation.setDirty(roi)\<close>.
\<close>

fun run_callback :: "callback \<Rightarrow> carving_slot \<Rightarrow> roi \<Rightarrow> carving_slot dirty_call list" where
  "run_callback (HandleDirtySegmentation _) slot r = [SetDirty MaskedSegmentation (DirtyRoi r)]"

text \<open>
  Modelled from the spec: a dirty event of the engine on a slot. All callbacks registered on
  the slot are invoked, each once and synchronously, with the slot and the region.
\<close>

definition fire_dirty :: "'m carving_state \<Rightarrow> carving_slot \<Rightarrow> roi \<Rightarrow> carving_slot dirty_call list" where
  "fire_dirty st slot r = concat (map (\<lambda>cb. run_callback cb slot r) (dirty_callbacks st slot))"

text \<open>
  \<^verbatim>\<open>OpSplitBodyCarving.setupOutputs\<close>. \<^verbatim>\<open>OpCarving.setupOutputs\<close> is not in the sources and is
  the parameter \<open>super\<close>. \<^verbatim>\<open>meta.assignFrom\<close> replaces the metadata of the slot by a copy of
  the other slot's.
\<close>

definition OpSplitBodyCarving_setupOutputs ::
  "('m carving_state \<Rightarrow> pyerror + 'm carving_state) \<Rightarrow> 'm carving_state \<Rightarrow> pyerror + 'm carving_state" where
  "OpSplitBodyCarving_setupOutputs super st =
     (case super st of
        Inl e \<Rightarrow> Inl e
      | Inr st1 \<Rightarrow>
          let st2 = st1\<lparr>slot_meta := (slot_meta st1)(MaskedSegmentation := slot_meta st1 Segmentation)\<rparr>;
              handleDirtySegmentation = HandleDirtySegmentation (functions_created st2);
              st3 = st2\<lparr>functions_created := Suc (functions_created st2)\<rparr>
          in Inr (notifyDirty Segmentation handleDirtySegmentation st3))"

text \<open>
  A stand-in for \<^verbatim>\<open>OpCarving.setupOutputs\<close> in concrete runs: it assigns the metadata \<open>m\<close> to
  \<^verbatim>\<open>Segmentation\<close> and touches nothing else.
\<close>

definition base_setupOutputs :: "'m \<Rightarrow> 'm carving_state \<Rightarrow> pyerror + 'm carving_state" where
  "base_setupOutputs m st = Inr (st\<lparr>slot_meta := (slot_meta st)(Segmentation := m)\<rparr>)"

text \<open>A newly constructed operator: no metadata but \<open>m0\<close>, no callbacks, no closures.\<close>

definition new_carving_state :: "'m \<Rightarrow> 'm carving_state" where
  "new_carving_state m0 =
     \<lparr>slot_meta = (\<lambda>_. m0), dirty_callbacks = (\<lambda>_. []), functions_created = 0\<rparr>"

section \<open>PixelClassificationSerializer: dirty flags\<close>

datatype Section = Labels | Classifier | Predictions

text \<open>
  The serializer: the dictionary \<^verbatim>\<open>_dirtyFlags\<close> and the values that \<^verbatim>\<open>progressSignal\<close> has
  emitted, oldest first.
\<close>

record serializer =
  dirtyFlags :: "Section \<rightharpoonup> bool"
  progressSignal :: "int list"

definition initDirtyFlags :: "serializer \<Rightarrow> serializer" where
  "initDirtyFlags s = s\<lparr>dirtyFlags := [Labels \<mapsto> False, Classifier \<mapsto> False, Predictions \<mapsto> False]\<rparr>"

text \<open>\<^verbatim>\<open>handleDirty(section)\<close>, the dirty callback bound to a section in \<^verbatim>\<open>__init__\<close>.\<close>

definition handleDirty :: "Section \<Rightarrow> serializer \<Rightarrow> serializer" where
  "handleDirty sec s = s\<lparr>dirtyFlags := (dirtyFlags s)(sec \<mapsto> True)\<rparr>"

text \<open>\<^verbatim>\<open>self._dirtyFlags.values()\<close>; neither \<^verbatim>\<open>sum\<close> nor \<^verbatim>\<open>any\<close> depends on the order.\<close>

definition flag_values :: "serializer \<Rightarrow> bool list" where
  "flag_values s = List.map_filter (dirtyFlags s) [Labels, Classifier, Predictions]"

text \<open>\<^verbatim>\<open>self._dirtyFlags[section]\<close>, a \<^verbatim>\<open>KeyError\<close> when the key is missing.\<close>

definition get_flag :: "serializer \<Rightarrow> Section \<Rightarrow> pyerror + bool" where
  "get_flag s sec = (case dirtyFlags s sec of None \<Rightarrow> Inl KeyError | Some b \<Rightarrow> Inr b)"

definition isDirty :: "serializer \<Rightarrow> bool" where
  "isDirty s = list_ex id (flag_values s)"

text \<open>
  \<^verbatim>\<open>_serializeLabels\<close> and \<^verbatim>\<open>_serializeClassifier\<close> write to the HDF5 group and then (the first)
  or in between (the second) clear their flag. The file is \<open>'g\<close>; the writing itself, done by
  h5py and vigra, is a parameter that can fail.
\<close>

definition serializeLabels ::
  "('g \<Rightarrow> pyerror + 'g) \<Rightarrow> 'g \<times> serializer \<Rightarrow> pyerror + 'g \<times> serializer" where
  "serializeLabels write_labels gs =
     (case write_labels (fst gs) of
        Inl e \<Rightarrow> Inl e
      | Inr g' \<Rightarrow> Inr (g', (snd gs)\<lparr>dirtyFlags := (dirtyFlags (snd gs))(Labels \<mapsto> False)\<rparr>))"

text \<open>
  \<^verbatim>\<open>_serializeClassifier\<close>: \<open>delete\<close> is \<^verbatim>\<open>deleteIfPresent(topGroup, 'Classifier')\<close>; the flag
  is cleared; \<open>classifier\<close> is \<open>None\<close> when the slot is not ready, \<open>Some None\<close> when its value
  is \<^verbatim>\<open>None\<close>; \<open>write\<close> stores a classifier through the temporary file.
\<close>

definition serializeClassifier ::
  "('g \<Rightarrow> pyerror + 'g) \<Rightarrow> ('c \<Rightarrow> 'g \<Rightarrow> pyerror + 'g) \<Rightarrow> 'c option option \<Rightarrow>
   'g \<times> serializer \<Rightarrow> pyerror + 'g \<times> serializer" where
  "serializeClassifier delete write classifier gs =
     (case delete (fst gs) of
        Inl e \<Rightarrow> Inl e
      | Inr g1 \<Rightarrow>
          let s1 = (snd gs)\<lparr>dirtyFlags := (dirtyFlags (snd gs))(Classifier \<mapsto> False)\<rparr> in
          (case classifier of
             None \<Rightarrow> Inr (g1, s1)
           | Some None \<Rightarrow> Inr (g1, s1)
           | Some (Some c) \<Rightarrow>
               (case write c g1 of Inl e \<Rightarrow> Inl e | Inr g2 \<Rightarrow> Inr (g2, s1))))"

text \<open>
  One step of \<^verbatim>\<open>_serializeToHdf5\<close>: if the section's flag is set, serialize, add the
  increment to the progress and emit it. \<^verbatim>\<open>increment\<close> is bound only when \<^verbatim>\<open>numSteps > 0\<close>;
  reading it unbound raises \<^verbatim>\<open>UnboundLocalError\<close>.
\<close>

datatype 'g progress_state = Progress (file_of: 'g) (serializer_of: serializer) (progress_of: int)

definition serialize_step ::
  "Section \<Rightarrow> ('g \<times> serializer \<Rightarrow> pyerror + 'g \<times> serializer) \<Rightarrow> int option \<Rightarrow>
   'g progress_state \<Rightarrow> pyerror + 'g progress_state" where
  "serialize_step sec serialize increment st =
     (case get_flag (serializer_of st) sec of
        Inl e \<Rightarrow> Inl e
      | Inr flag \<Rightarrow>
          if flag then
            (case serialize (file_of st, serializer_of st) of
               Inl e \<Rightarrow> Inl e
             | Inr gs \<Rightarrow>
                 (case increment of
                    None \<Rightarrow> Inl UnboundLocalError
                  | Some inc \<Rightarrow>
                      Inr (Progress (fst gs)
                             ((snd gs)\<lparr>progressSignal := progressSignal (snd gs) @ [progress_of st + inc]\<rparr>)
                             (progress_of st + inc))))
          else Inr st)"

text \<open>
  \<^verbatim>\<open>_serializeToHdf5\<close>: \<^verbatim>\<open>numSteps\<close> is the number of set flags, \<^verbatim>\<open>100/numSteps\<close> is the
  integer division of Python 2; the predictions step is commented out in the source; the last
  statement is \<^verbatim>\<open>self._initDirtyFlags()\<close>.
\<close>

definition serializeToHdf5 ::
  "('g \<times> serializer \<Rightarrow> pyerror + 'g \<times> serializer) \<Rightarrow>
   ('g \<times> serializer \<Rightarrow> pyerror + 'g \<times> serializer) \<Rightarrow>
   'g \<times> serializer \<Rightarrow> pyerror + 'g \<times> serializer" where
  "serializeToHdf5 serialize_labels serialize_classifier gs =
     (let numSteps = int (length (filter id (flag_values (snd gs))));
          increment = (if numSteps > 0 then Some (100 div numSteps) else None)
      in case serialize_step Labels serialize_labels increment (Progress (fst gs) (snd gs) 0) of
           Inl e \<Rightarrow> Inl e
         | Inr st1 \<Rightarrow>
             (case serialize_step Classifier serialize_classifier increment st1 of
                Inl e \<Rightarrow> Inl e
              | Inr st2 \<Rightarrow> Inr (file_of st2, initDirtyFlags (serializer_of st2))))"

section \<open>The classifier cache and \<^verbatim>\<open>_deserializeClassifier\<close>\<close>

text \<open>
  Modelled from the spec: the classifier cache of the main operator and its \<^verbatim>\<open>forceValue\<close>,
  which are not in the sources. The spec says that a slot is ready iff it is connected to a
  value-producing source or has a direct value, and that \<^verbatim>\<open>forceValue\<close> is a direct assignment
  that bypasses recomputation. \<open>computations\<close> counts the runs of the producer (the
  training).
\<close>

record 'c value_cache =
  direct_value :: "'c option"
  connected_to_producer :: bool
  computations :: nat

definition cache_ready :: "'c value_cache \<Rightarrow> bool" where
  "cache_ready c = (direct_value c \<noteq> None \<or> connected_to_producer c)"

definition forceValue :: "'c \<Rightarrow> 'c value_cache \<Rightarrow> 'c value_cache" where
  "forceValue v c = c\<lparr>direct_value := Some v\<rparr>"

text \<open>
  Modelled from the spec: reading the cache's value. A direct value is returned as it is;
  without one the producer runs (\<open>train\<close> is what it returns) if the slot is connected to
  it, and the read raises if the slot is not ready.
\<close>

definition cache_value :: "'c \<Rightarrow> 'c value_cache \<Rightarrow> (pyerror + 'c) \<times> 'c value_cache" where
  "cache_value train c =
     (case direct_value c of
        Some v \<Rightarrow> (Inr v, c)
      | None \<Rightarrow>
          if connected_to_producer c then (Inr train, c\<lparr>computations := Suc (computations c)\<rparr>)
          else (Inl SlotNotReadyError, c))"

text \<open>
  \<^verbatim>\<open>_deserializeClassifier\<close>. The group is a map from names to stored items; \<open>load\<close> is the
  copy to a temporary file and vigra's reading of the random forest, which can fail. A
  missing \<^verbatim>\<open>'Classifier'\<close> entry is the caught \<^verbatim>\<open>KeyError\<close>.
\<close>

definition deserializeClassifier ::
  "('d \<Rightarrow> pyerror + 'c) \<Rightarrow> (string \<rightharpoonup> 'd) option \<Rightarrow> serializer \<times> 'c value_cache \<Rightarrow>
   pyerror + serializer \<times> 'c value_cache" where
  "deserializeClassifier load topGroup sc =
     (case topGroup of
        None \<Rightarrow> Inr sc
      | Some g \<Rightarrow>
          (case g ''Classifier'' of
             None \<Rightarrow> Inr ((fst sc)\<lparr>dirtyFlags := (dirtyFlags (fst sc))(Classifier \<mapsto> False)\<rparr>, snd sc)
           | Some classifierGroup \<Rightarrow>
               (case load classifierGroup of
                  Inl e \<Rightarrow> Inl e
                | Inr classifier \<Rightarrow>
                    Inr ((fst sc)\<lparr>dirtyFlags := (dirtyFlags (fst sc))(Classifier \<mapsto> False)\<rparr>,
                         forceValue classifier (snd sc)))))"

section \<open>MulticutGuiMixin: keeping the drawer and the operator in step\<close>

text \<open>
  How a call ends: \<^verbatim>\<open>return False\<close>, falling off the end (\<^verbatim>\<open>None\<close>), or an exception that
  leaves the function.
\<close>

datatype outcome = ReturnedNone | ReturnedFalse | Raised pyerror

text \<open>
  The state that the two functions read and write: the flag \<^verbatim>\<open>_currently_updating\<close>, the
  value of \<^verbatim>\<open>beta_box\<close>, the current index of \<^verbatim>\<open>solver_name_combo\<close>, and the values of the
  operator's slots \<^verbatim>\<open>Beta\<close> and \<^verbatim>\<open>SolverName\<close> (\<open>None\<close> for a slot that is not ready, whose
  \<^verbatim>\<open>.value\<close> raises). The type of Beta's values is \<open>'b\<close>.
\<close>

record 'b gui =
  currently_updating :: bool
  beta_box_value :: 'b
  solver_name_combo_index :: int
  op_Beta :: "'b option"
  op_SolverName :: "string option"

text \<open>
  \<^verbatim>\<open>AVAILABLE_SOLVER_NAMES\<close> and \<^verbatim>\<open>DEFAULT_SOLVER_NAME\<close> are constants of \<^verbatim>\<open>opMulticut\<close>, which
  is not in the sources, so they are parameters, as is the rounding and clamping that the
  spin box applies to a value it is given.
\<close>

record 'b multicut_env =
  AVAILABLE_SOLVER_NAMES :: "string list"
  DEFAULT_SOLVER_NAME :: string
  spin_box_round :: "'b \<Rightarrow> 'b"

text \<open>\<^verbatim>\<open>list.index(x)\<close>; \<open>None\<close> stands for the \<^verbatim>\<open>ValueError\<close>.\<close>

fun list_index :: "'a list \<Rightarrow> 'a \<Rightarrow> nat option" where
  "list_index [] y = None"
| "list_index (x # xs) y = (if x = y then Some 0 else map_option Suc (list_index xs y))"

text \<open>
  \<^verbatim>\<open>solver_name_combo.currentText()\<close>: the combo box holds \<^verbatim>\<open>AVAILABLE_SOLVER_NAMES\<close> (added in
  \<^verbatim>\<open>createDrawerControls\<close>); the text is empty when there is no current item.
\<close>

definition currentText :: "'b multicut_env \<Rightarrow> 'b gui \<Rightarrow> string" where
  "currentText env s =
     (if 0 \<le> solver_name_combo_index s \<and> nat (solver_name_combo_index s) < length (AVAILABLE_SOLVER_NAMES env)
      then AVAILABLE_SOLVER_NAMES env ! nat (solver_name_combo_index s) else [])"

text \<open>
  The two functions call each other through the handlers that \<^verbatim>\<open>createDrawerControls\<close>
  installs: the widgets' \<^verbatim>\<open>valueChanged\<close> and \<^verbatim>\<open>currentIndexChanged\<close> signals are connected to
  \<^verbatim>\<open>configure_operator_from_gui\<close>, and \<^verbatim>\<open>configure_gui_from_operator\<close> is a dirty callback of
  \<^verbatim>\<open>op.Beta\<close> and \<^verbatim>\<open>op.SolverName\<close>. A widget emits its signal when a setter changes its
  value, and the result of the connected function is dropped; a slot's \<^verbatim>\<open>setValue\<close> notifies
  its dirty callbacks (the spec's contract of \<^verbatim>\<open>setValue\<close>), and an exception of a callback
  propagates to the caller of \<^verbatim>\<open>setValue\<close>.

  \<^verbatim>\<open>set_updating\<close> is a generator-based context manager without \<^verbatim>\<open>try\<close>/\<^verbatim>\<open>finally\<close>:
  its \<^verbatim>\<open>assert\<close> holds where the functions enter it, just after the test of the flag; it sets
  the flag, and the statement that clears the flag runs only when the body ends without an
  exception. An exception in the body leaves through the \<^verbatim>\<open>yield\<close> and the flag stays set.
\<close>

function configure_gui_from_operator :: "'b multicut_env \<Rightarrow> 'b gui \<Rightarrow> outcome \<times> 'b gui"
  and configure_operator_from_gui :: "'b multicut_env \<Rightarrow> 'b gui \<Rightarrow> outcome \<times> 'b gui" where
  "configure_gui_from_operator env s =
     (if currently_updating s then (ReturnedFalse, s)
      else
        let s1 = s\<lparr>currently_updating := True\<rparr> in
        case op_Beta s1 of
          None \<Rightarrow> (Raised SlotNotReadyError, s1)
        | Some beta \<Rightarrow>
            let v = spin_box_round env beta;
                s2 = (if v = beta_box_value s1 then s1
                      else snd (configure_operator_from_gui env (s1\<lparr>beta_box_value := v\<rparr>))) in
            case op_SolverName s2 of
              None \<Rightarrow> (Raised SlotNotReadyError, s2)
            | Some solver_name \<Rightarrow>
                let looked_up =
                  (case list_index (AVAILABLE_SOLVER_NAMES env) solver_name of
                     Some i \<Rightarrow> (Inr i, s2)
                   | None \<Rightarrow>
                       (case list_index (AVAILABLE_SOLVER_NAMES env) (DEFAULT_SOLVER_NAME env) of
                          None \<Rightarrow> (Inl ValueError, s2)
                        | Some i \<Rightarrow>
                            (case configure_gui_from_operator env
                                    (s2\<lparr>op_SolverName := Some (DEFAULT_SOLVER_NAME env)\<rparr>) of
                               (Raised e, s3) \<Rightarrow> (Inl e, s3)
                             | (_, s3) \<Rightarrow> (Inr i, s3))))
                in case looked_up of
                     (Inl e, s3) \<Rightarrow> (Raised e, s3)
                   | (Inr solver_index, s3) \<Rightarrow>
                       let s4 = (if int solver_index = solver_name_combo_index s3 then s3
                                 else snd (configure_operator_from_gui env
                                             (s3\<lparr>solver_name_combo_index := int solver_index\<rparr>)))
                       in (ReturnedNone, s4\<lparr>currently_updating := False\<rparr>))"
| "configure_operator_from_gui env s =
     (if currently_updating s then (ReturnedFalse, s)
      else
        let s1 = s\<lparr>currently_updating := True\<rparr> in
        case configure_gui_from_operator env (s1\<lparr>op_Beta := Some (beta_box_value s1)\<rparr>) of
          (Raised e, s2) \<Rightarrow> (Raised e, s2)
        | (_, s2) \<Rightarrow>
            (case configure_gui_from_operator env (s2\<lparr>op_SolverName := Some (currentText env s2)\<rparr>) of
               (Raised e, s3) \<Rightarrow> (Raised e, s3)
             | (_, s3) \<Rightarrow> (ReturnedNone, s3\<lparr>currently_updating := False\<rparr>)))"
  by pat_completeness auto

termination
  apply (relation "measure (\<lambda>x. case x of Inl (env, s) \<Rightarrow> (if currently_updating s then 0 else 1)
                                   | Inr (env, s) \<Rightarrow> (if currently_updating s then 0 else 1))")
        apply simp
       apply simp
      apply (auto simp: configure_gui_from_operator.psimps configure_operator_from_gui.psimps split: if_splits option.splits sum.splits prod.splits outcome.splits)
  done

section \<open>Round trip of slicings through their string form\<close>

lemma of_char_digit_char: "d < 10 \<Longrightarrow> (of_char (digit_char d) :: nat) = 48 + d"
  by (simp add: digit_char_def)

lemma is_digit_digit_char: "d < 10 \<Longrightarrow> is_digit (digit_char d)"
  by (simp add: is_digit_def of_char_digit_char)

lemma digit_val_digit_char: "d < 10 \<Longrightarrow> digit_val (digit_char d) = d"
  by (simp add: digit_val_def of_char_digit_char)

lemma digits_val_snoc: "digits_val (s @ [c]) = 10 * digits_val s + digit_val c"
  by (simp add: digits_val_def)

lemma str_nat_nonempty: "str_nat n \<noteq> []"
  by (subst str_nat.simps) simp

lemma str_nat_digits: "list_all is_digit (str_nat n)"
proof (induction n rule: str_nat.induct)
  case (1 n)
  show ?case
  proof (cases "n < 10")
    case True
    then show ?thesis by (subst str_nat.simps) (simp add: is_digit_digit_char)
  next
    case False
    with 1 show ?thesis by (subst str_nat.simps) (simp add: is_digit_digit_char)
  qed
qed

lemma digits_val_str_nat: "digits_val (str_nat n) = n"
proof (induction n rule: str_nat.induct)
  case (1 n)
  show ?case
  proof (cases "n < 10")
    case True
    then show ?thesis
      by (subst str_nat.simps) (simp add: digits_val_def digit_val_digit_char)
  next
    case False
    with 1 show ?thesis
      by (subst str_nat.simps) (simp add: digits_val_snoc digit_val_digit_char)
  qed
qed

lemma parse_digits_str_nat: "parse_digits (str_nat n) = Inr n"
  by (simp add: parse_digits_def str_nat_nonempty str_nat_digits digits_val_str_nat)

lemma digit_not_space: "is_digit c \<Longrightarrow> \<not> is_space c"
  by (auto simp: is_digit_def is_space_def)

lemma digit_not_sign: "is_digit c \<Longrightarrow> c \<noteq> CHR ''-'' \<and> c \<noteq> CHR ''+''"
  by (auto simp: is_digit_def)

lemma digit_not_sep: "is_digit c \<Longrightarrow> c \<noteq> CHR '','' \<and> c \<noteq> CHR '':''"
  by (auto simp: is_digit_def)

lemma strip_id: "s \<noteq> [] \<Longrightarrow> \<not> is_space (hd s) \<Longrightarrow> \<not> is_space (last s) \<Longrightarrow> strip s = s"
proof -
  assume a: "s \<noteq> []" "\<not> is_space (hd s)" "\<not> is_space (last s)"
  then have "dropWhile is_space s = s" by (cases s) auto
  moreover from a have "dropWhile is_space (rev s) = rev s"
    by (cases "rev s") (auto simp: last_rev hd_rev)
  ultimately show ?thesis by (simp add: strip_def)
qed

lemma str_nat_hd: "is_digit (hd (str_nat n))"
  using str_nat_digits [of n] str_nat_nonempty [of n] by (cases "str_nat n") auto

lemma str_nat_last: "is_digit (last (str_nat n))"
  using str_nat_digits [of n] str_nat_nonempty [of n]
  by (metis last_in_set list_all_iff)

lemma py_int_str_int: "py_int (str_int i) = Inr i"
proof (cases "i < 0")
  case True
  have "strip (CHR ''-'' # str_nat (nat (- i))) = CHR ''-'' # str_nat (nat (- i))"
    by (rule strip_id) (simp_all add: str_nat_nonempty digit_not_space str_nat_last, simp add: is_space_def)
  with True show ?thesis
    by (simp add: py_int_def str_int_def parse_digits_str_nat)
next
  case False
  have s: "strip (str_nat (nat i)) = str_nat (nat i)"
    by (rule strip_id) (simp_all add: str_nat_nonempty digit_not_space str_nat_hd str_nat_last)
  obtain c cs where cs: "str_nat (nat i) = c # cs"
    using str_nat_nonempty [of "nat i"] by (cases "str_nat (nat i)") auto
  then have "is_digit c" using str_nat_hd [of "nat i"] by simp
  then have "c \<noteq> CHR ''-''" "c \<noteq> CHR ''+''" using digit_not_sign by auto
  then have "parse_signed (c # cs) = map_sum id int (parse_digits (c # cs))" by simp
  with cs s False show ?thesis
    using parse_digits_str_nat [of "nat i"]
    by (simp add: py_int_def str_int_def)
qed

lemma split_on_nonempty: "split_on sep s \<noteq> []"
  by (induction s) auto

lemma split_on_absent: "sep \<notin> set s \<Longrightarrow> split_on sep s = [s]"
  by (induction s) auto

lemma split_on_first: "sep \<notin> set s \<Longrightarrow> split_on sep (s @ sep # t) = s # split_on sep t"
  by (induction s) auto

lemma str_nat_no_char: "\<not> is_digit c \<Longrightarrow> c \<notin> set (str_nat n)"
  using str_nat_digits [of n] by (auto simp: list_all_iff)

lemma str_int_no_sep: "CHR '','' \<notin> set (str_int i) \<and> CHR '':'' \<notin> set (str_int i)"
  by (simp add: str_int_def str_nat_no_char is_digit_def)

lemma parse_ends_item: "parse_ends (str_int a @ CHR '':'' # str_int b) = Inr (slice2 (PyInt a) (PyInt b))"
  by (simp add: parse_ends_def split_on_first split_on_absent str_int_no_sep py_int_str_int)

lemma slicingToString_loop_concat:
  "slicingToString_loop slicing acc = acc @ concat (map (\<lambda>s. slice_item s @ '','') slicing)"
  by (induction slicing arbitrary: acc) (simp_all add: slice_item_def)

lemma roi_slice_item:
  assumes "roi_slice s"
  shows "CHR '','' \<notin> set (slice_item s)" and "parse_ends (slice_item s) = Inr s"
proof -
  from assms obtain a b where s: "s = Slice (PyInt a) (PyInt b) PyNone"
    by (auto simp: roi_slice_def split: pyslice.splits pyval.splits)
  show "CHR '','' \<notin> set (slice_item s)"
    by (simp add: s slice_item_def str_int_no_sep)
  show "parse_ends (slice_item s) = Inr s"
    using parse_ends_item [of a b] by (simp add: s slice_item_def slice2_def)
qed

lemma split_joined:
  assumes "slicing \<noteq> []" and "list_all roi_slice slicing"
  shows "split_on CHR '','' (butlast (concat (map (\<lambda>s. slice_item s @ '','') slicing)))
           = map slice_item slicing"
  using assms
proof (induction slicing rule: list_nonempty_induct)
  case (single s)
  then show ?case by (simp add: split_on_absent roi_slice_item(1))
next
  case (cons s slicing)
  let ?rest = "concat (map (\<lambda>s. slice_item s @ '','') slicing)"
  from cons.hyps have ne: "?rest \<noteq> []" by (cases slicing) auto
  have "butlast (concat (map (\<lambda>s. slice_item s @ '','') (s # slicing)))
          = slice_item s @ CHR '','' # butlast ?rest"
    using ne by (simp add: butlast_append)
  with cons show ?case by (simp add: split_on_first roi_slice_item(1))
qed

lemma stringToSlicing_loop_items:
  "list_all roi_slice slicing \<Longrightarrow>
     stringToSlicing_loop (map slice_item slicing) acc = Inr (acc @ slicing)"
  by (induction slicing arbitrary: acc) (simp_all add: roi_slice_item(2))

lemma strip_brackets:
  assumes "slicing \<noteq> []"
  shows "butlast (tl (slicingToString slicing))
           = butlast (concat (map (\<lambda>s. slice_item s @ '','') slicing))"
proof -
  let ?body = "concat (map (\<lambda>s. slice_item s @ '','') slicing)"
  from assms have ne: "?body \<noteq> []" by (cases slicing) auto
  have "slicingToString slicing = CHR ''['' # butlast ?body @ '']''"
    using ne by (simp add: slicingToString_def slicingToString_loop_concat butlast_append)
  then show ?thesis by (simp add: butlast_append)
qed

text \<open>
  For every slicing with at least one axis whose slices are \<^verbatim>\<open>slice(start, stop)\<close> with
  non-negative integer bounds, parsing the serialized form returns the original slicing.
\<close>

lemma roundtrip_nonempty_slicing:
  assumes "slicing \<noteq> []" and "list_all roi_slice slicing"
  shows "stringToSlicing (slicingToString slicing) = Inr slicing"
  using assms
  by (simp add: stringToSlicing_def strip_brackets split_joined stringToSlicing_loop_items)

lemma slicingToString_example:
  "slicingToString [slice2 (PyInt 0) (PyInt 10), slice2 (PyInt 0) (PyInt 5), slice2 (PyInt 0) (PyInt 1)]
     = ''[0:10,0:5,0:1]''"
  by code_simp

lemma stringToSlicing_example:
  "stringToSlicing ''[0:10,0:5,0:1]'' =
     Inr [slice2 (PyInt 0) (PyInt 10), slice2 (PyInt 0) (PyInt 5), slice2 (PyInt 0) (PyInt 1)]"
proof -
  have "list_all roi_slice [slice2 (PyInt 0) (PyInt 10), slice2 (PyInt 0) (PyInt 5), slice2 (PyInt 0) (PyInt 1)]"
    by (simp add: roi_slice_def slice2_def)
  then show ?thesis
    using roundtrip_nonempty_slicing
      [of "[slice2 (PyInt 0) (PyInt 10), slice2 (PyInt 0) (PyInt 5), slice2 (PyInt 0) (PyInt 1)]"]
    by (simp only: slicingToString_example) simp
qed


section \<open>Row-major positions of a region\<close>

lemma length_concat_uniform:
  "(\<And>xs. xs \<in> set xss \<Longrightarrow> length xs = m) \<Longrightarrow> length (concat xss) = length xss * m"
  by (induction xss) auto

lemma nth_concat_uniform:
  "(\<And>xs. xs \<in> set xss \<Longrightarrow> length xs = m) \<Longrightarrow> i < length xss \<Longrightarrow> j < m \<Longrightarrow>
     concat xss ! (i * m + j) = xss ! i ! j"
proof (induction xss arbitrary: i)
  case Nil
  then show ?case by simp
next
  case (Cons xs xss)
  have len: "length xs = m" using Cons.prems(1) by simp
  show ?case
  proof (cases i)
    case 0
    then show ?thesis using len Cons.prems(3) by (simp add: nth_append)
  next
    case (Suc k)
    then have "concat (xs # xss) ! (i * m + j) = concat xss ! (k * m + j)"
      using len by (simp add: nth_append)
    also have "\<dots> = xss ! k ! j"
      using Cons.IH [of k] Cons.prems Suc by simp
    finally show ?thesis using Suc by simp
  qed
qed

lemma length_upto_int: "length [a..b - 1] = nat (b - a)"
  by simp

lemma length_coords:
  "list_all2 (\<le>) as bs \<Longrightarrow> length (coords as bs) = nat (prod_list (map2 (\<lambda>b a. b - a) bs as))"
proof (induction as bs rule: list_all2_induct)
  case Nil
  then show ?case by simp
next
  case (Cons a as b bs)
  have "length (concat (map (\<lambda>x. map ((#) x) (coords as bs)) [a..b - 1]))
          = length (map (\<lambda>x. map ((#) x) (coords as bs)) [a..b - 1]) * length (coords as bs)"
    by (rule length_concat_uniform) auto
  then have "length (coords (a # as) (b # bs)) = nat (b - a) * length (coords as bs)"
    by simp
  also have "\<dots> = nat ((b - a) * prod_list (map2 (\<lambda>b a. b - a) bs as))"
    using Cons by (simp add: nat_mult_distrib)
  finally show ?case by simp
qed

lemma length_coords_roi:
  "valid_roi r \<Longrightarrow> length (coords (roi_start r) (roi_stop r)) = nat (prod_list (extent r))"
  by (simp add: valid_roi_def extent_def length_coords)

lemma coords_nth:
  "list_all2 (\<le>) as p \<Longrightarrow> list_all2 (<) p bs \<Longrightarrow>
     ravel_index (map2 (\<lambda>b a. b - a) bs as) (map2 (\<lambda>x a. x - a) p as) < length (coords as bs)
     \<and> coords as bs ! ravel_index (map2 (\<lambda>b a. b - a) bs as) (map2 (\<lambda>x a. x - a) p as) = p"
proof (induction as arbitrary: p bs)
  case Nil
  then show ?case by simp
next
  case (Cons a as)
  from Cons.prems(1) obtain x q where p: "p = x # q" and ax: "a \<le> x" and asq: "list_all2 (\<le>) as q"
    by (auto simp: list_all2_Cons1)
  from Cons.prems(2) p obtain b cs where bs: "bs = b # cs" and xb: "x < b" and qcs: "list_all2 (<) q cs"
    by (auto simp: list_all2_Cons1)
  let ?m = "length (coords as cs)"
  let ?j = "ravel_index (map2 (\<lambda>b a. b - a) cs as) (map2 (\<lambda>x a. x - a) q as)"
  let ?blocks = "map (\<lambda>x. map ((#) x) (coords as cs)) [a..b - 1]"
  from Cons.IH [OF asq qcs] have j: "?j < ?m" and nth: "coords as cs ! ?j = q" by auto
  have "list_all2 (\<le>) as cs"
    using asq qcs by (auto simp: list_all2_conv_all_nth) (metis le_less_trans less_imp_le)
  then have m: "?m = nat (prod_list (map2 (\<lambda>b a. b - a) cs as))" by (rule length_coords)
  have uni: "\<And>xs. xs \<in> set ?blocks \<Longrightarrow> length xs = ?m" by auto
  have i: "nat (x - a) < length ?blocks" using ax xb by simp
  have idx: "ravel_index (map2 (\<lambda>b a. b - a) bs (a # as)) (map2 (\<lambda>x a. x - a) p (a # as))
               = nat (x - a) * ?m + ?j"
    by (simp add: p bs m)
  have len: "length (coords (a # as) bs) = length ?blocks * ?m"
    unfolding bs coords.simps by (rule length_concat_uniform) auto
  have "nat (x - a) * ?m + ?j < length ?blocks * ?m"
  proof -
    have "nat (x - a) * ?m + ?j < nat (x - a) * ?m + ?m" using j by simp
    also have "\<dots> = Suc (nat (x - a)) * ?m" by simp
    also have "\<dots> \<le> length ?blocks * ?m" using i by (intro mult_le_mono1 Suc_leI)
    finally show ?thesis .
  qed
  moreover have "coords (a # as) bs ! (nat (x - a) * ?m + ?j) = p"
  proof -
    have "coords (a # as) bs ! (nat (x - a) * ?m + ?j) = ?blocks ! nat (x - a) ! ?j"
      unfolding bs coords.simps using uni i j by (rule nth_concat_uniform)
    also have "?blocks ! nat (x - a) = map ((#) x) (coords as cs)"
      using i ax xb by (simp del: upto.simps)
    finally show ?thesis using j nth p by simp
  qed
  ultimately show ?case using idx len by simp
qed

section \<open>What the operators compute and propagate\<close>

lemma in_roi_valid: "in_roi r p \<Longrightarrow> valid_roi r"
  unfolding in_roi_def valid_roi_def
  by (auto simp: list_all2_conv_all_nth) (metis le_less_trans less_imp_le)

lemma in_roi_index:
  assumes "in_roi r p"
  shows "list_all2 (\<lambda>i n. 0 \<le> i \<and> i < n) (map2 (\<lambda>x a. x - a) p (roi_start r)) (extent r)"
  using assms unfolding in_roi_def extent_def
  by (auto simp: list_all2_conv_all_nth)

lemma element_at_roi:
  assumes "in_roi r p" and "shape out = extent r"
    and "data out = map f (coords (roi_start r) (roi_stop r))"
  shows "element_at out (map2 (\<lambda>x a. x - a) p (roi_start r)) = Some (f p)"
proof -
  from assms(1) have a: "list_all2 (\<le>) (roi_start r) p" and b: "list_all2 (<) p (roi_stop r)"
    by (simp_all add: in_roi_def)
  from coords_nth [OF a b] show ?thesis
    using in_roi_index [OF assms(1)] assms(2,3)
    by (simp add: element_at_def extent_def)
qed

lemma fill_as_positions:
  assumes "valid_roi r" and "shape result = extent r" and "well_formed result"
  shows "map (\<lambda>_. c) (data result) = map (\<lambda>p. c) (coords (roi_start r) (roi_stop r))"
proof -
  have "length (data result) = length (coords (roi_start r) (roi_stop r))"
    using assms by (simp add: well_formed_def length_coords_roi)
  then show ?thesis by (simp add: map_replicate_const)
qed

lemma OpHighlightLabel_execute_result:
  assumes "valid_roi r" and "shape result = extent r" and "well_formed result"
    and "HighlightLabel_value op = Some label" and "Input_volume op = Some inp"
  shows "OpHighlightLabel_execute op Output subindex r result =
           Inr (result\<lparr>data :=
                  map (\<lambda>p. if label = 0 then 0 else if inp p = label then 1 else 0)
                    (coords (roi_start r) (roi_stop r))\<rparr>)"
proof (cases "label = 0")
  case True
  have "OpHighlightLabel_execute op Output subindex r result
          = Inr (result\<lparr>data := map (\<lambda>_. 0) (data result)\<rparr>)"
    using True assms(4) by (simp add: OpHighlightLabel_execute_def fill_def)
  also have "map (\<lambda>_. 0::int) (data result) = map (\<lambda>p. 0) (coords (roi_start r) (roi_stop r))"
    by (rule fill_as_positions [OF assms(1,2,3)])
  finally show ?thesis using True by simp
next
  case False
  then show ?thesis
    using assms(2,4,5)
    by (simp add: OpHighlightLabel_execute_def slot_writeInto_wait_def assign_all_def
        where_eq_def comp_def)
qed

lemma allocate_shape: "shape (allocate shp junk) = shp"
  by (simp add: allocate_def)

lemma allocate_well_formed: "well_formed (allocate shp junk)"
  by (simp add: allocate_def well_formed_def)

lemma filled_well_formed:
  assumes "valid_roi r" and "shape result = extent r"
  shows "well_formed (result\<lparr>data := map f (coords (roi_start r) (roi_stop r))\<rparr>)"
  using assms by (simp add: well_formed_def length_coords_roi)

lemma map2_same: "map2 (\<lambda>e x. if e = c then x else 0) (map f xs) (map g xs)
                   = map (\<lambda>p. if f p = c then g p else (0::int)) xs"
  by (induction xs) auto

lemma OpSplitBodyCarving_execute_result:
  assumes "shape result = extent r"
    and "RavelerLabels_volume op = Some labels" and "CurrentRavelerLabel_value op = Some cur"
    and "Segmentation_volume op = Some seg"
  shows "OpSplitBodyCarving_execute super op MaskedSegmentation subindex r result =
           Inr (result\<lparr>data :=
                  map (\<lambda>p. if labels p = cur then seg p else 0) (coords (roi_start r) (roi_stop r))\<rparr>)"
proof -
  have "map2 (\<lambda>e x. if e = cur then x else 0)
          (map labels (coords (roi_start r) (roi_stop r))) (map seg (coords (roi_start r) (roi_stop r)))
        = map (\<lambda>p. if labels p = cur then seg p else 0) (coords (roi_start r) (roi_stop r))"
    by (rule map2_same)
  then show ?thesis using assms
    by (simp add: OpSplitBodyCarving_execute_def slot_wait_def slot_writeInto_wait_def
        where_eq_array_def assign_all_def)
qed

text \<open>
  C2: a change of a scalar input slot (\<^verbatim>\<open>HighlightLabel\<close> of OpHighlightLabel,
  \<^verbatim>\<open>CurrentRavelerLabel\<close> of OpSplitBodyCarving) makes \<^verbatim>\<open>propagateDirty\<close> call \<^verbatim>\<open>setDirty\<close> once
  on the dependent output, with the unbounded marker \<^verbatim>\<open>slice(None)\<close>, whatever region the
  call was given; the marker stands for the entire domain of the slot, never a sub-region.
\<close>

theorem C2_scalar_input_dirties_entire_output:
  "OpHighlightLabel_propagateDirty HighlightLabel subindex r
     = Inr [SetDirty Output (DirtySlice (Slice PyNone PyNone PyNone))]
   \<and> OpSplitBodyCarving_propagateDirty super CurrentRavelerLabel subindex r
     = Inr [SetDirty MaskedSegmentation (DirtySlice (Slice PyNone PyNone PyNone))]
   \<and> dirty_region shp (DirtySlice (Slice PyNone PyNone PyNone)) = Some (map (\<lambda>_. 0) shp, shp)"
  by (simp add: OpHighlightLabel_propagateDirty_def OpSplitBodyCarving_propagateDirty_def)

theorem C2_scalar_input_witness:
  "OpHighlightLabel_propagateDirty HighlightLabel [] \<lparr>roi_start = [0, 0], roi_stop = [10, 10]\<rparr>
     = Inr [SetDirty Output (DirtySlice (Slice PyNone PyNone PyNone))]
   \<and> OpSplitBodyCarving_propagateDirty (\<lambda>_ _ _. Inl AssertionError) CurrentRavelerLabel []
        \<lparr>roi_start = [0, 0], roi_stop = [10, 10]\<rparr>
     = Inr [SetDirty MaskedSegmentation (DirtySlice (Slice PyNone PyNone PyNone))]
   \<and> dirty_region [20, 30] (DirtySlice (Slice PyNone PyNone PyNone)) = Some ([0, 0], [20, 30])"
  using C2_scalar_input_dirties_entire_output
    [of "[]" "\<lparr>roi_start = [0, 0], roi_stop = [10, 10]\<rparr>" "\<lambda>_ _ _. Inl AssertionError" "[20, 30]"]
  by simp

text \<open>
  C3: when a region-indexed input (\<^verbatim>\<open>Input\<close> of OpHighlightLabel, \<^verbatim>\<open>RavelerLabels\<close> of
  OpSplitBodyCarving) becomes dirty over a bounded ROI, \<^verbatim>\<open>propagateDirty\<close> calls \<^verbatim>\<open>setDirty\<close>
  once on the output, with exactly \<^verbatim>\<open>(roi.start, roi.stop)\<close>: the dirty region of the output
  is that ROI.
\<close>

theorem C3_region_input_dirties_same_region:
  "OpHighlightLabel_propagateDirty Input subindex r
     = Inr [SetDirty Output (DirtyStartStop (roi_start r) (roi_stop r))]
   \<and> OpSplitBodyCarving_propagateDirty super RavelerLabels subindex r
     = Inr [SetDirty MaskedSegmentation (DirtyStartStop (roi_start r) (roi_stop r))]
   \<and> dirty_region shp (DirtyStartStop (roi_start r) (roi_stop r)) = Some (roi_start r, roi_stop r)"
  by (simp add: OpHighlightLabel_propagateDirty_def OpSplitBodyCarving_propagateDirty_def)

theorem C3_region_input_witness:
  "OpHighlightLabel_propagateDirty Input [] \<lparr>roi_start = [0, 0], roi_stop = [10, 10]\<rparr>
     = Inr [SetDirty Output (DirtyStartStop [0, 0] [10, 10])]
   \<and> OpSplitBodyCarving_propagateDirty (\<lambda>_ _ _. Inl AssertionError) RavelerLabels []
        \<lparr>roi_start = [0, 0], roi_stop = [10, 10]\<rparr>
     = Inr [SetDirty MaskedSegmentation (DirtyStartStop [0, 0] [10, 10])]
   \<and> dirty_region [20, 30] (DirtyStartStop [0, 0] [10, 10]) = Some ([0, 0], [10, 10])"
  using C3_region_input_dirties_same_region
    [of "[]" "\<lparr>roi_start = [0, 0], roi_stop = [10, 10]\<rparr>" "\<lambda>_ _ _. Inl AssertionError" "[20, 30]"]
  by simp

text \<open>
  C8: for every valid ROI on a ready output slot, \<^verbatim>\<open>execute\<close> fills the pre-allocated
  destination, whatever it held, with the slot's data over the roi and returns that same
  destination; the array returned has the shape \<^verbatim>\<open>stop - start\<close> axis by axis and as many
  elements as that shape has. This holds for the \<^verbatim>\<open>Output\<close> of OpHighlightLabel and for the
  \<^verbatim>\<open>MaskedSegmentation\<close> of OpSplitBodyCarving, for \<^verbatim>\<open>execute\<close> on any destination of the
  roi extent and so for the request \<^verbatim>\<open>slot(start, stop).wait()\<close>.
\<close>

theorem C8_execute_fills_and_returns_buffer:
  assumes "valid_roi r"
    and "shape result = extent r" and "well_formed result"
    and "HighlightLabel_value hl = Some label" and "Input_volume hl = Some inp"
    and "RavelerLabels_volume op = Some labels" and "CurrentRavelerLabel_value op = Some cur"
    and "Segmentation_volume op = Some seg"
  shows "(\<exists>out. OpHighlightLabel_execute hl Output subindex r result = Inr out
            \<and> out = result\<lparr>data :=
                  map (\<lambda>p. if label = 0 then 0 else if inp p = label then 1 else 0)
                    (coords (roi_start r) (roi_stop r))\<rparr>
            \<and> shape out = map2 (\<lambda>b a. b - a) (roi_stop r) (roi_start r)
            \<and> length (data out) = nat (prod_list (shape out)))
       \<and> (\<exists>out. OpSplitBodyCarving_execute super op MaskedSegmentation subindex r result = Inr out
            \<and> out = result\<lparr>data :=
                  map (\<lambda>p. if labels p = cur then seg p else 0) (coords (roi_start r) (roi_stop r))\<rparr>
            \<and> shape out = map2 (\<lambda>b a. b - a) (roi_stop r) (roi_start r)
            \<and> length (data out) = nat (prod_list (shape out)))
       \<and> (\<exists>out. output_wait (OpHighlightLabel_execute hl Output subindex) junk r = Inr out
            \<and> data out = map (\<lambda>p. if label = 0 then 0 else if inp p = label then 1 else 0)
                            (coords (roi_start r) (roi_stop r))
            \<and> shape out = map2 (\<lambda>b a. b - a) (roi_stop r) (roi_start r)
            \<and> length (data out) = nat (prod_list (shape out)))
       \<and> (\<exists>out. output_wait (OpSplitBodyCarving_execute super op MaskedSegmentation subindex) junk r = Inr out
            \<and> data out = map (\<lambda>p. if labels p = cur then seg p else 0)
                            (coords (roi_start r) (roi_stop r))
            \<and> shape out = map2 (\<lambda>b a. b - a) (roi_stop r) (roi_start r)
            \<and> length (data out) = nat (prod_list (shape out)))"
proof -
  have lc: "length (coords (roi_start r) (roi_stop r)) = nat (prod_list (extent r))"
    using assms(1) by (rule length_coords_roi)
  have ext: "extent r = map2 (\<lambda>b a. b - a) (roi_stop r) (roi_start r)"
    by (simp add: extent_def)
  have 1: "\<exists>out. OpHighlightLabel_execute hl Output subindex r result = Inr out
            \<and> out = result\<lparr>data :=
                  map (\<lambda>p. if label = 0 then 0 else if inp p = label then 1 else 0)
                    (coords (roi_start r) (roi_stop r))\<rparr>
            \<and> shape out = map2 (\<lambda>b a. b - a) (roi_stop r) (roi_start r)
            \<and> length (data out) = nat (prod_list (shape out))"
    unfolding OpHighlightLabel_execute_result [OF assms(1,2,3,4,5)]
    using assms(2) lc ext by simp
  have 2: "\<exists>out. OpSplitBodyCarving_execute super op MaskedSegmentation subindex r result = Inr out
            \<and> out = result\<lparr>data :=
                  map (\<lambda>p. if labels p = cur then seg p else 0) (coords (roi_start r) (roi_stop r))\<rparr>
            \<and> shape out = map2 (\<lambda>b a. b - a) (roi_stop r) (roi_start r)
            \<and> length (data out) = nat (prod_list (shape out))"
    unfolding OpSplitBodyCarving_execute_result [OF assms(2,6,7,8)]
    using assms(2) lc ext by simp
  have 3: "\<exists>out. output_wait (OpHighlightLabel_execute hl Output subindex) junk r = Inr out
            \<and> data out = map (\<lambda>p. if label = 0 then 0 else if inp p = label then 1 else 0)
                            (coords (roi_start r) (roi_stop r))
            \<and> shape out = map2 (\<lambda>b a. b - a) (roi_stop r) (roi_start r)
            \<and> length (data out) = nat (prod_list (shape out))"
    unfolding output_wait_def
      OpHighlightLabel_execute_result [OF assms(1) allocate_shape allocate_well_formed assms(4,5)]
    using lc ext by (simp add: allocate_shape)
  have 4: "\<exists>out. output_wait (OpSplitBodyCarving_execute super op MaskedSegmentation subindex) junk r = Inr out
            \<and> data out = map (\<lambda>p. if labels p = cur then seg p else 0)
                            (coords (roi_start r) (roi_stop r))
            \<and> shape out = map2 (\<lambda>b a. b - a) (roi_stop r) (roi_start r)
            \<and> length (data out) = nat (prod_list (shape out))"
    unfolding output_wait_def OpSplitBodyCarving_execute_result [OF allocate_shape assms(6,7,8)]
    using lc ext by (simp add: allocate_shape)
  from 1 2 3 4 show ?thesis by blast
qed

lemma coords_example: "coords [0, 1] [2, 4] = [[0, 1], [0, 2], [0, 3], [1, 1], [1, 2], [1, 3]]"
  by code_simp

theorem C8_execute_fills_witness:
  "valid_roi \<lparr>roi_start = [0, 1], roi_stop = [2, 4]\<rparr>
   \<and> shape \<lparr>shape = [2, 3], data = [9, 9, 9, 9, 9, 9]\<rparr> = extent \<lparr>roi_start = [0, 1], roi_stop = [2, 4]\<rparr>
   \<and> well_formed \<lparr>shape = [2, 3], data = [9, 9, 9, 9, 9, 9]\<rparr>
   \<and> OpHighlightLabel_execute \<lparr>Input_volume = Some sum_list, HighlightLabel_value = Some 2\<rparr>
        Output [] \<lparr>roi_start = [0, 1], roi_stop = [2, 4]\<rparr> \<lparr>shape = [2, 3], data = [9, 9, 9, 9, 9, 9]\<rparr>
       = Inr \<lparr>shape = [2, 3], data = [0, 1, 0, 1, 0, 0]\<rparr>
   \<and> OpSplitBodyCarving_execute (\<lambda>_ _ _ _. Inl AssertionError)
        \<lparr>RavelerLabels_volume = Some sum_list, CurrentRavelerLabel_value = Some 2,
         Segmentation_volume = Some (\<lambda>_. 7)\<rparr>
        MaskedSegmentation [] \<lparr>roi_start = [0, 1], roi_stop = [2, 4]\<rparr>
        \<lparr>shape = [2, 3], data = [9, 9, 9, 9, 9, 9]\<rparr>
       = Inr \<lparr>shape = [2, 3], data = [0, 7, 0, 7, 0, 0]\<rparr>"
  using C8_execute_fills_and_returns_buffer
    [where r = "\<lparr>roi_start = [0, 1], roi_stop = [2, 4]\<rparr>"
       and result = "\<lparr>shape = [2, 3], data = [9, 9, 9, 9, 9, 9]\<rparr>"
       and hl = "\<lparr>Input_volume = Some sum_list, HighlightLabel_value = Some 2\<rparr>"
       and label = 2 and inp = sum_list
       and op = "\<lparr>RavelerLabels_volume = Some sum_list, CurrentRavelerLabel_value = Some 2,
                   Segmentation_volume = Some (\<lambda>_. 7)\<rparr>"
       and labels = sum_list and cur = 2 and seg = "\<lambda>_. 7"
       and subindex = "[]" and super = "\<lambda>_ _ _ _. Inl AssertionError" and junk = "\<lambda>_. 9"]
  by (auto simp: valid_roi_def extent_def well_formed_def coords_example simp del: coords.simps)

text \<open>
  C9: for every ROI and every position \<open>p\<close> in it, the array that \<^verbatim>\<open>HighlightedRavelerObject\<close>
  delivers (it is served by the highlighter, whose \<^verbatim>\<open>Input\<close> is \<^verbatim>\<open>RavelerLabels\<close> and whose
  \<^verbatim>\<open>HighlightLabel\<close> is \<^verbatim>\<open>CurrentRavelerLabel\<close>) holds at \<open>p\<close> (relative to the start of the
  ROI) 0 when the label is 0, and otherwise 1 if \<^verbatim>\<open>RavelerLabels\<close> at \<open>p\<close> equals the label and
  0 if not. This holds for \<^verbatim>\<open>execute\<close> on any destination of the roi extent, whatever it held
  before, and so for the request.
\<close>

theorem C9_highlighted_object_values:
  assumes "in_roi r p"
    and "shape result = extent r" and "well_formed result"
    and "RavelerLabels_volume op = Some labels" and "CurrentRavelerLabel_value op = Some cur"
  shows "(\<exists>out. HighlightedRavelerObject_execute op r result = Inr out
            \<and> element_at out (map2 (\<lambda>x a. x - a) p (roi_start r))
                = Some (if cur = 0 then 0 else if labels p = cur then 1 else 0))
       \<and> (\<exists>out. output_wait (HighlightedRavelerObject_execute op) junk r = Inr out
            \<and> element_at out (map2 (\<lambda>x a. x - a) p (roi_start r))
                = Some (if cur = 0 then 0 else if labels p = cur then 1 else 0))"
proof -
  have v: "valid_roi r" using assms(1) by (rule in_roi_valid)
  have hl: "HighlightLabel_value (opHighlighter op) = Some cur"
    and inp: "Input_volume (opHighlighter op) = Some labels"
    using assms(4,5) by (simp_all add: opHighlighter_def)
  have at: "element_at (res\<lparr>data :=
                  map (\<lambda>p. if cur = 0 then 0 else if labels p = cur then 1 else 0)
                    (coords (roi_start r) (roi_stop r))\<rparr>) (map2 (\<lambda>x a. x - a) p (roi_start r))
          = Some (if cur = 0 then 0 else if labels p = cur then 1 else 0)"
    if "shape res = extent r" for res
    by (rule element_at_roi [OF assms(1)]) (simp_all add: that)
  have 1: "\<exists>out. HighlightedRavelerObject_execute op r result = Inr out
            \<and> element_at out (map2 (\<lambda>x a. x - a) p (roi_start r))
                = Some (if cur = 0 then 0 else if labels p = cur then 1 else 0)"
    unfolding HighlightedRavelerObject_execute_def
      OpHighlightLabel_execute_result [OF v assms(2,3) hl inp]
    using at [OF assms(2)] by simp
  have 2: "\<exists>out. output_wait (HighlightedRavelerObject_execute op) junk r = Inr out
            \<and> element_at out (map2 (\<lambda>x a. x - a) p (roi_start r))
                = Some (if cur = 0 then 0 else if labels p = cur then 1 else 0)"
    unfolding output_wait_def HighlightedRavelerObject_execute_def
      OpHighlightLabel_execute_result [OF v allocate_shape allocate_well_formed hl inp]
    using at [OF allocate_shape] by simp
  from 1 2 show ?thesis by blast
qed

theorem C9_highlighted_object_witness:
  "in_roi \<lparr>roi_start = [0, 1], roi_stop = [2, 4]\<rparr> [1, 2]
   \<and> shape \<lparr>shape = [2, 3], data = [9, 9, 9, 9, 9, 9]\<rparr> = extent \<lparr>roi_start = [0, 1], roi_stop = [2, 4]\<rparr>
   \<and> well_formed \<lparr>shape = [2, 3], data = [9, 9, 9, 9, 9, 9]\<rparr>
   \<and> (\<exists>out. HighlightedRavelerObject_execute
               \<lparr>RavelerLabels_volume = Some sum_list, CurrentRavelerLabel_value = Some 0,
                Segmentation_volume = None\<rparr>
               \<lparr>roi_start = [0, 1], roi_stop = [2, 4]\<rparr> \<lparr>shape = [2, 3], data = [9, 9, 9, 9, 9, 9]\<rparr> = Inr out
             \<and> element_at out [1, 1] = Some 0)
   \<and> (\<exists>out. output_wait
               (HighlightedRavelerObject_execute
                  \<lparr>RavelerLabels_volume = Some sum_list, CurrentRavelerLabel_value = Some 0,
                   Segmentation_volume = None\<rparr>)
               (\<lambda>_. 9) \<lparr>roi_start = [0, 1], roi_stop = [2, 4]\<rparr> = Inr out
             \<and> element_at out [1, 1] = Some 0)"
  using C9_highlighted_object_values
    [where r = "\<lparr>roi_start = [0, 1], roi_stop = [2, 4]\<rparr>" and p = "[1, 2]"
       and result = "\<lparr>shape = [2, 3], data = [9, 9, 9, 9, 9, 9]\<rparr>"
       and op = "\<lparr>RavelerLabels_volume = Some sum_list, CurrentRavelerLabel_value = Some 0,
                   Segmentation_volume = None\<rparr>"
       and labels = sum_list and cur = 0 and junk = "\<lambda>_. 9"]
  by (simp add: in_roi_def extent_def well_formed_def)

lemma highlighted_object_label_example:
  "HighlightedRavelerObject_execute
     \<lparr>RavelerLabels_volume = Some sum_list, CurrentRavelerLabel_value = Some 3, Segmentation_volume = None\<rparr>
     \<lparr>roi_start = [0, 1], roi_stop = [2, 4]\<rparr> \<lparr>shape = [2, 3], data = [9, 9, 9, 9, 9, 9]\<rparr>
   = Inr \<lparr>shape = [2, 3], data = [0, 0, 1, 0, 1, 0]\<rparr>"
  by (simp add: HighlightedRavelerObject_execute_def opHighlighter_def OpHighlightLabel_execute_def
      slot_writeInto_wait_def assign_all_def where_eq_def extent_def coords_example
      del: coords.simps)

section \<open>setupOutputs registers a callback on every run\<close>

lemma setupOutputs_appends_callback:
  assumes "super st = Inr st1"
  shows "\<exists>st'. OpSplitBodyCarving_setupOutputs super st = Inr st'
           \<and> dirty_callbacks st' Segmentation
               = dirty_callbacks st1 Segmentation @ [HandleDirtySegmentation (functions_created st1)]
           \<and> slot_meta st' = (slot_meta st1)(MaskedSegmentation := slot_meta st1 Segmentation)
           \<and> functions_created st' = Suc (functions_created st1)"
  using assms by (simp add: OpSplitBodyCarving_setupOutputs_def notifyDirty_def Let_def)

lemma fire_dirty_one_call_per_callback:
  "fire_dirty st slot r = map (\<lambda>_. SetDirty MaskedSegmentation (DirtyRoi r)) (dirty_callbacks st slot)"
proof -
  have "\<And>cbs. concat (map (\<lambda>cb. run_callback cb slot r) cbs)
          = map (\<lambda>_. SetDirty MaskedSegmentation (DirtyRoi r)) cbs"
  proof -
    fix cbs show "concat (map (\<lambda>cb. run_callback cb slot r) cbs)
          = map (\<lambda>_. SetDirty MaskedSegmentation (DirtyRoi r)) cbs"
    proof (induction cbs)
      case Nil
      show ?case by simp
    next
      case (Cons cb cbs)
      then show ?case by (cases cb) simp
    qed
  qed
  then show ?thesis by (simp add: fire_dirty_def)
qed

lemma setupOutputs_first_run:
  "OpSplitBodyCarving_setupOutputs (base_setupOutputs m) (new_carving_state m0) =
     Inr \<lparr>slot_meta = (\<lambda>_. m0)(Segmentation := m, MaskedSegmentation := m),
          dirty_callbacks = (\<lambda>_. [])(Segmentation := [HandleDirtySegmentation 0]),
          functions_created = 1\<rparr>"
  by (simp add: OpSplitBodyCarving_setupOutputs_def base_setupOutputs_def new_carving_state_def
      notifyDirty_def Let_def)

lemma setupOutputs_second_run:
  "OpSplitBodyCarving_setupOutputs (base_setupOutputs m)
     \<lparr>slot_meta = (\<lambda>_. m0)(Segmentation := m, MaskedSegmentation := m),
      dirty_callbacks = (\<lambda>_. [])(Segmentation := [HandleDirtySegmentation 0]),
      functions_created = 1\<rparr> =
     Inr \<lparr>slot_meta = (\<lambda>_. m0)(Segmentation := m, MaskedSegmentation := m),
          dirty_callbacks = (\<lambda>_. [])(Segmentation := [HandleDirtySegmentation 0, HandleDirtySegmentation 1]),
          functions_created = 2\<rparr>"
  by (simp add: OpSplitBodyCarving_setupOutputs_def base_setupOutputs_def notifyDirty_def Let_def
      fun_upd_twist)

lemma setupOutputs_grows_callbacks:
  assumes "super st = Inr st1" and "dirty_callbacks st1 Segmentation = dirty_callbacks st Segmentation"
  shows "\<exists>st'. OpSplitBodyCarving_setupOutputs super st = Inr st'
           \<and> length (dirty_callbacks st' Segmentation) = Suc (length (dirty_callbacks st Segmentation))"
  using setupOutputs_appends_callback [of super st st1] assms by auto

lemma OpHighlightLabel_setupOutputs_idem:
  "OpHighlightLabel_setupOutputs (OpHighlightLabel_setupOutputs meta) = OpHighlightLabel_setupOutputs meta"
  by (simp add: OpHighlightLabel_setupOutputs_def)

text \<open>
  C4 fails on the code. On a new operator, with a base class that only assigns the metadata
  of \<^verbatim>\<open>Segmentation\<close>, two runs of \<^verbatim>\<open>OpSplitBodyCarving.setupOutputs\<close> with unchanged inputs
  give the same metadata, but the second run has registered a second
  \<^verbatim>\<open>handleDirtySegmentation\<close> on \<^verbatim>\<open>Segmentation\<close>: the callbacks after the second run are not
  those after the first, so \<^verbatim>\<open>setupOutputs\<close> has a side effect beyond metadata assignment.
\<close>

theorem C4_setupOutputs_twice_registers_twice:
  "\<exists>st1 st2.
     OpSplitBodyCarving_setupOutputs (base_setupOutputs m) (new_carving_state m0) = Inr st1
   \<and> OpSplitBodyCarving_setupOutputs (base_setupOutputs m) st1 = Inr st2
   \<and> slot_meta st2 = slot_meta st1
   \<and> dirty_callbacks st1 Segmentation = [HandleDirtySegmentation 0]
   \<and> dirty_callbacks st2 Segmentation = [HandleDirtySegmentation 0, HandleDirtySegmentation 1]
   \<and> st2 \<noteq> st1"
proof -
  let ?st1 = "\<lparr>slot_meta = (\<lambda>_. m0)(Segmentation := m, MaskedSegmentation := m),
      dirty_callbacks = (\<lambda>_. [])(Segmentation := [HandleDirtySegmentation 0]),
      functions_created = 1\<rparr>"
  let ?st2 = "\<lparr>slot_meta = (\<lambda>_. m0)(Segmentation := m, MaskedSegmentation := m),
          dirty_callbacks = (\<lambda>_. [])(Segmentation := [HandleDirtySegmentation 0, HandleDirtySegmentation 1]),
          functions_created = 2\<rparr>"
  have "slot_meta ?st2 = slot_meta ?st1" by simp
  moreover have "dirty_callbacks ?st1 Segmentation = [HandleDirtySegmentation 0]" by simp
  moreover have "dirty_callbacks ?st2 Segmentation = [HandleDirtySegmentation 0, HandleDirtySegmentation 1]"
    by simp
  moreover have "?st2 \<noteq> ?st1" by simp
  ultimately show ?thesis
    using setupOutputs_first_run [of m m0] setupOutputs_second_run [of m m0] by blast
qed

theorem C4_setupOutputs_twice_witness:
  "\<exists>st1 st2.
     OpSplitBodyCarving_setupOutputs (base_setupOutputs [10, 10 :: int]) (new_carving_state []) = Inr st1
   \<and> OpSplitBodyCarving_setupOutputs (base_setupOutputs [10, 10]) st1 = Inr st2
   \<and> slot_meta st2 = slot_meta st1
   \<and> dirty_callbacks st1 Segmentation = [HandleDirtySegmentation 0]
   \<and> dirty_callbacks st2 Segmentation = [HandleDirtySegmentation 0, HandleDirtySegmentation 1]
   \<and> st2 \<noteq> st1"
  using C4_setupOutputs_twice_registers_twice [of "[10, 10 :: int]" "[]"] .

text \<open>
  C5 fails on the code, by the defect of C4. After one run of \<^verbatim>\<open>setupOutputs\<close> a dirty event
  on \<^verbatim>\<open>Segmentation\<close> over \<open>r\<close> yields one \<^verbatim>\<open>setDirty(roi)\<close> on \<^verbatim>\<open>MaskedSegmentation\<close>, carrying
  \<open>r\<close> itself; after two runs the same event yields two.
\<close>

theorem C5_two_setDirty_after_two_setupOutputs:
  "\<exists>st1 st2.
     OpSplitBodyCarving_setupOutputs (base_setupOutputs m) (new_carving_state m0) = Inr st1
   \<and> OpSplitBodyCarving_setupOutputs (base_setupOutputs m) st1 = Inr st2
   \<and> fire_dirty st1 Segmentation r = [SetDirty MaskedSegmentation (DirtyRoi r)]
   \<and> fire_dirty st2 Segmentation r
       = [SetDirty MaskedSegmentation (DirtyRoi r), SetDirty MaskedSegmentation (DirtyRoi r)]"
proof -
  let ?st1 = "\<lparr>slot_meta = (\<lambda>_. m0)(Segmentation := m, MaskedSegmentation := m),
      dirty_callbacks = (\<lambda>_. [])(Segmentation := [HandleDirtySegmentation 0]),
      functions_created = 1\<rparr>"
  let ?st2 = "\<lparr>slot_meta = (\<lambda>_. m0)(Segmentation := m, MaskedSegmentation := m),
          dirty_callbacks = (\<lambda>_. [])(Segmentation := [HandleDirtySegmentation 0, HandleDirtySegmentation 1]),
          functions_created = 2\<rparr>"
  have "fire_dirty ?st1 Segmentation r = [SetDirty MaskedSegmentation (DirtyRoi r)]"
    by (simp add: fire_dirty_def)
  moreover have "fire_dirty ?st2 Segmentation r
       = [SetDirty MaskedSegmentation (DirtyRoi r), SetDirty MaskedSegmentation (DirtyRoi r)]"
    by (simp add: fire_dirty_def)
  ultimately show ?thesis
    using setupOutputs_first_run [of m m0] setupOutputs_second_run [of m m0] by blast
qed

theorem C5_two_setDirty_witness:
  "\<exists>st1 st2.
     OpSplitBodyCarving_setupOutputs (base_setupOutputs [10, 10 :: int]) (new_carving_state []) = Inr st1
   \<and> OpSplitBodyCarving_setupOutputs (base_setupOutputs [10, 10]) st1 = Inr st2
   \<and> fire_dirty st1 Segmentation \<lparr>roi_start = [0, 0], roi_stop = [10, 10]\<rparr>
       = [SetDirty MaskedSegmentation (DirtyRoi \<lparr>roi_start = [0, 0], roi_stop = [10, 10]\<rparr>)]
   \<and> fire_dirty st2 Segmentation \<lparr>roi_start = [0, 0], roi_stop = [10, 10]\<rparr>
       = [SetDirty MaskedSegmentation (DirtyRoi \<lparr>roi_start = [0, 0], roi_stop = [10, 10]\<rparr>),
          SetDirty MaskedSegmentation (DirtyRoi \<lparr>roi_start = [0, 0], roi_stop = [10, 10]\<rparr>)]"
  using C5_two_setDirty_after_two_setupOutputs
    [of "[10, 10 :: int]" "[]" "\<lparr>roi_start = [0, 0], roi_stop = [10, 10]\<rparr>"] .

section \<open>Dirty flags of the serializer\<close>

lemma isDirty_iff:
  "isDirty s \<longleftrightarrow>
     (dirtyFlags s Labels = Some True \<or> dirtyFlags s Classifier = Some True
      \<or> dirtyFlags s Predictions = Some True)"
  by (cases "dirtyFlags s Labels"; cases "dirtyFlags s Classifier"; cases "dirtyFlags s Predictions")
     (auto simp: isDirty_def flag_values_def List.map_filter_simps)

lemma isDirty_handleDirty: "isDirty (handleDirty sec s)"
  by (cases sec) (simp_all add: isDirty_iff handleDirty_def)

lemma initDirtyFlags_clean:
  "dirtyFlags (initDirtyFlags s) Labels = Some False"
  "dirtyFlags (initDirtyFlags s) Classifier = Some False"
  "dirtyFlags (initDirtyFlags s) Predictions = Some False"
  "\<not> isDirty (initDirtyFlags s)"
  by (simp_all add: isDirty_iff initDirtyFlags_def)

lemma serializeToHdf5_result:
  assumes "serializeToHdf5 sl sc gs = Inr gs'"
  shows "\<exists>s1. snd gs' = initDirtyFlags s1"
  using assms
  by (auto simp: serializeToHdf5_def Let_def split: sum.splits)

lemma serialize_step_completes:
  assumes "dirtyFlags (serializer_of st) sec = Some flag"
    and "flag \<Longrightarrow> \<exists>gs. serialize (file_of st, serializer_of st) = Inr gs"
    and "flag \<Longrightarrow> increment \<noteq> None"
  shows "\<exists>st'. serialize_step sec serialize increment st = Inr st'"
  using assms by (cases flag) (auto simp: serialize_step_def get_flag_def)

lemma serializeToHdf5_completes:
  assumes "dirtyFlags s Labels = Some l" and "dirtyFlags s Classifier = Some c"
    and "\<And>gs. \<exists>g'. serialize_labels gs = Inr (g', (snd gs)\<lparr>dirtyFlags := (dirtyFlags (snd gs))(Labels \<mapsto> False)\<rparr>)"
    and "\<And>gs. \<exists>g'. serialize_classifier gs = Inr (g', (snd gs)\<lparr>dirtyFlags := (dirtyFlags (snd gs))(Classifier \<mapsto> False)\<rparr>)"
  shows "\<exists>gs'. serializeToHdf5 serialize_labels serialize_classifier (g, s) = Inr gs'"
proof -
  let ?n = "int (length (filter id (flag_values s)))"
  let ?inc = "if ?n > 0 then Some (100 div ?n) else None"
  have pos: "?inc \<noteq> None" if "l \<or> c"
    using that assms(1,2) by (auto simp: flag_values_def List.map_filter_simps)
  have "\<exists>st1. serialize_step Labels serialize_labels ?inc (Progress g s 0) = Inr st1
          \<and> dirtyFlags (serializer_of st1) Classifier = Some c"
  proof (cases l)
    case True
    from assms(3) [of "(g, s)"] obtain g' where
      "serialize_labels (g, s) = Inr (g', s\<lparr>dirtyFlags := (dirtyFlags s)(Labels \<mapsto> False)\<rparr>)"
      by auto
    with True pos assms(1,2) show ?thesis
      by (auto simp: serialize_step_def get_flag_def)
  next
    case False
    with assms(1,2) show ?thesis by (simp add: serialize_step_def get_flag_def)
  qed
  then obtain st1 where st1: "serialize_step Labels serialize_labels ?inc (Progress g s 0) = Inr st1"
    and c1: "dirtyFlags (serializer_of st1) Classifier = Some c" by blast
  have "\<exists>st2. serialize_step Classifier serialize_classifier ?inc st1 = Inr st2"
  proof (cases c)
    case True
    from assms(4) [of "(file_of st1, serializer_of st1)"] obtain g' where
      "serialize_classifier (file_of st1, serializer_of st1)
         = Inr (g', (serializer_of st1)\<lparr>dirtyFlags := (dirtyFlags (serializer_of st1))(Classifier \<mapsto> False)\<rparr>)"
      by auto
    with True pos c1 show ?thesis
      by (auto simp: serialize_step_def get_flag_def)
  next
    case False
    with c1 show ?thesis by (simp add: serialize_step_def get_flag_def)
  qed
  with st1 show ?thesis by (auto simp: serializeToHdf5_def Let_def)
qed

text \<open>
  C6: when \<^verbatim>\<open>_serializeToHdf5\<close> completes, whatever the two serialization steps did, the flag
  of every section is \<^verbatim>\<open>False\<close> and \<^verbatim>\<open>isDirty()\<close> returns \<^verbatim>\<open>False\<close>. \<^verbatim>\<open>isDirty()\<close> is \<^verbatim>\<open>True\<close>
  exactly when at least one section flag is set; the dirty callback \<^verbatim>\<open>handleDirty\<close> sets the
  flag of its section, and \<^verbatim>\<open>_initDirtyFlags\<close> leaves none set.
\<close>

theorem C6_serialize_clears_dirty_flags:
  "(serializeToHdf5 serialize_labels serialize_classifier (g, s) = Inr (g', s') \<longrightarrow>
      dirtyFlags s' Labels = Some False \<and> dirtyFlags s' Classifier = Some False
      \<and> dirtyFlags s' Predictions = Some False \<and> \<not> isDirty s')
   \<and> (isDirty s \<longleftrightarrow>
        (dirtyFlags s Labels = Some True \<or> dirtyFlags s Classifier = Some True
         \<or> dirtyFlags s Predictions = Some True))
   \<and> isDirty (handleDirty sec s)
   \<and> \<not> isDirty (initDirtyFlags s)"
proof -
  have "dirtyFlags s' Labels = Some False \<and> dirtyFlags s' Classifier = Some False
      \<and> dirtyFlags s' Predictions = Some False \<and> \<not> isDirty s'"
    if "serializeToHdf5 serialize_labels serialize_classifier (g, s) = Inr (g', s')"
    using serializeToHdf5_result [OF that] initDirtyFlags_clean by auto
  then show ?thesis
    using isDirty_iff [of s] isDirty_handleDirty [of sec s] initDirtyFlags_clean(4) [of s] by blast
qed

lemma serialize_example:
  "serializeToHdf5 (serializeLabels Inr) (serializeClassifier Inr (\<lambda>c. Inr) (Some (Some (5::nat))))
     ((), handleDirty Classifier (handleDirty Labels (initDirtyFlags \<lparr>dirtyFlags = Map.empty, progressSignal = []\<rparr>)))
   = Inr ((), initDirtyFlags \<lparr>dirtyFlags = [Labels \<mapsto> False, Classifier \<mapsto> False, Predictions \<mapsto> False],
                              progressSignal = [50, 100]\<rparr>)"
  by (simp add: serializeToHdf5_def serialize_step_def get_flag_def flag_values_def
      List.map_filter_simps handleDirty_def initDirtyFlags_def serializeLabels_def
      serializeClassifier_def Let_def fun_upd_twist)

theorem C6_serialize_clears_witness:
  "serializeToHdf5 (serializeLabels Inr) (serializeClassifier Inr (\<lambda>c. Inr) (Some (Some (5::nat))))
     ((), handleDirty Classifier (handleDirty Labels (initDirtyFlags \<lparr>dirtyFlags = Map.empty, progressSignal = []\<rparr>)))
   = Inr ((), initDirtyFlags \<lparr>dirtyFlags = [Labels \<mapsto> False, Classifier \<mapsto> False, Predictions \<mapsto> False],
                              progressSignal = [50, 100]\<rparr>)
   \<and> \<not> isDirty (initDirtyFlags \<lparr>dirtyFlags = [Labels \<mapsto> False, Classifier \<mapsto> False, Predictions \<mapsto> False],
                                 progressSignal = [50, 100]\<rparr>)
   \<and> isDirty (handleDirty Classifier (handleDirty Labels (initDirtyFlags \<lparr>dirtyFlags = Map.empty, progressSignal = []\<rparr>)))"
  using C6_serialize_clears_dirty_flags
    [of "serializeLabels Inr" "serializeClassifier Inr (\<lambda>c. Inr) (Some (Some (5::nat)))" "()"
        "handleDirty Classifier (handleDirty Labels (initDirtyFlags \<lparr>dirtyFlags = Map.empty, progressSignal = []\<rparr>))"
        "()"
        "initDirtyFlags \<lparr>dirtyFlags = [Labels \<mapsto> False, Classifier \<mapsto> False, Predictions \<mapsto> False],
                              progressSignal = [50, 100]\<rparr>"
        Classifier]
    serialize_example
  by (simp add: isDirty_handleDirty)

section \<open>forceValue\<close>

text \<open>
  C7: when the project group holds a classifier that loads, \<^verbatim>\<open>_deserializeClassifier\<close> forces it
  into the classifier cache with \<^verbatim>\<open>forceValue\<close>; after that the cache is ready, the producer has
  run no more often than before, and reading the value returns the forced classifier, again
  without a run of the producer.
\<close>

theorem C7_forceValue_ready_without_recomputation:
  assumes "topGroup = Some g" and "g ''Classifier'' = Some d" and "load d = Inr classifier"
  shows "\<exists>s' c'. deserializeClassifier load topGroup (s, c) = Inr (s', c')
           \<and> c' = forceValue classifier c
           \<and> cache_ready c' \<and> computations c' = computations c
           \<and> cache_value train c' = (Inr classifier, c')
           \<and> dirtyFlags s' Classifier = Some False"
  using assms
  by (simp add: deserializeClassifier_def forceValue_def cache_ready_def cache_value_def)



theorem C7_forceValue_witness:
  "\<exists>s' c'. deserializeClassifier Inr (Some [''Classifier'' \<mapsto> (7::nat)])
              (\<lparr>dirtyFlags = Map.empty, progressSignal = []\<rparr>,
               \<lparr>direct_value = None, connected_to_producer = False, computations = 3\<rparr>) = Inr (s', c')
           \<and> cache_ready c' \<and> computations c' = 3
           \<and> cache_value (0::nat) c' = (Inr 7, c')"
  using C7_forceValue_ready_without_recomputation
    [of "Some [''Classifier'' \<mapsto> (7::nat)]" "[''Classifier'' \<mapsto> (7::nat)]" 7 Inr 7
        "\<lparr>dirtyFlags = Map.empty, progressSignal = []\<rparr>"
        "\<lparr>direct_value = None, connected_to_producer = False, computations = 3\<rparr>" 0]
  by auto

section \<open>The update guard\<close>

lemma configure_gui_from_operator_guarded:
  "currently_updating s \<Longrightarrow> configure_gui_from_operator env s = (ReturnedFalse, s)"
  by simp

lemma configure_operator_from_gui_guarded:
  "currently_updating s \<Longrightarrow> configure_operator_from_gui env s = (ReturnedFalse, s)"
  by simp

lemma configure_operator_from_gui_run:
  "\<not> currently_updating s \<Longrightarrow>
     configure_operator_from_gui env s =
       (ReturnedNone, s\<lparr>op_Beta := Some (beta_box_value s), op_SolverName := Some (currentText env s)\<rparr>)"
  by (simp add: currentText_def)

lemma configure_gui_from_operator_run:
  assumes "\<not> currently_updating s" and "op_Beta s = Some beta" and "op_SolverName s = Some name"
    and "list_index (AVAILABLE_SOLVER_NAMES env) name = Some i"
  shows "configure_gui_from_operator env s =
           (ReturnedNone, s\<lparr>beta_box_value := spin_box_round env beta,
                             solver_name_combo_index := int i\<rparr>)"
proof -
  have "s\<lparr>beta_box_value := spin_box_round env beta, solver_name_combo_index := int i\<rparr>
          = s\<lparr>currently_updating := False, beta_box_value := spin_box_round env beta,
               solver_name_combo_index := int i\<rparr>"
    using assms(1) by simp
  moreover have "configure_gui_from_operator env s =
           (ReturnedNone, s\<lparr>currently_updating := False, beta_box_value := spin_box_round env beta,
                             solver_name_combo_index := int i\<rparr>)"
    using assms by (auto simp: Let_def)
  ultimately show ?thesis by simp
qed

lemma configure_gui_from_operator_unknown_solver:
  assumes "\<not> currently_updating s" and "op_Beta s = Some beta" and "op_SolverName s = Some name"
    and "list_index (AVAILABLE_SOLVER_NAMES env) name = None"
    and "list_index (AVAILABLE_SOLVER_NAMES env) (DEFAULT_SOLVER_NAME env) = Some i"
  shows "configure_gui_from_operator env s =
           (ReturnedNone, s\<lparr>currently_updating := False, beta_box_value := spin_box_round env beta,
                             solver_name_combo_index := int i,
                             op_SolverName := Some (DEFAULT_SOLVER_NAME env)\<rparr>)"
  using assms by (auto simp: Let_def)

lemma configure_gui_from_operator_no_default:
  assumes "\<not> currently_updating s" and "op_Beta s = Some beta" and "op_SolverName s = Some name"
    and "list_index (AVAILABLE_SOLVER_NAMES env) name = None"
    and "list_index (AVAILABLE_SOLVER_NAMES env) (DEFAULT_SOLVER_NAME env) = None"
  shows "configure_gui_from_operator env s =
           (Raised ValueError, s\<lparr>currently_updating := True, beta_box_value := spin_box_round env beta\<rparr>)"
  using assms by (auto simp: Let_def)

lemma configure_gui_from_operator_flag:
  assumes "\<not> currently_updating s"
  shows "case fst (configure_gui_from_operator env s) of
           ReturnedNone \<Rightarrow> \<not> currently_updating (snd (configure_gui_from_operator env s))
         | ReturnedFalse \<Rightarrow> False
         | Raised e \<Rightarrow> currently_updating (snd (configure_gui_from_operator env s))"
  using assms
  by (auto simp: Let_def split: option.splits)

text \<open>
  C10 fails on the code in its last part. The guard holds (the two lemmas above, and the
  functions are total). But a run of \<^verbatim>\<open>configure_gui_from_operator\<close> that starts with the flag
  clear and whose body raises, here at \<^verbatim>\<open>op.Beta.value\<close> of a slot that is not ready, leaves
  with the flag set, since \<^verbatim>\<open>set_updating\<close> clears it only after a body that did not raise;
  from then on both functions return \<^verbatim>\<open>False\<close> at the guard and change nothing.
\<close>

theorem C10_exception_leaves_flag_set:
  "configure_gui_from_operator env (s\<lparr>currently_updating := False, op_Beta := None\<rparr>)
     = (Raised SlotNotReadyError, s\<lparr>currently_updating := True, op_Beta := None\<rparr>)
   \<and> configure_gui_from_operator env (s\<lparr>currently_updating := True, op_Beta := None\<rparr>)
     = (ReturnedFalse, s\<lparr>currently_updating := True, op_Beta := None\<rparr>)
   \<and> configure_operator_from_gui env (s\<lparr>currently_updating := True, op_Beta := None\<rparr>)
     = (ReturnedFalse, s\<lparr>currently_updating := True, op_Beta := None\<rparr>)"
  by simp

theorem C10_exception_witness:
  "configure_gui_from_operator
     \<lparr>AVAILABLE_SOLVER_NAMES = [''A'', ''B''], DEFAULT_SOLVER_NAME = ''A'', spin_box_round = id\<rparr>
     \<lparr>currently_updating = False, beta_box_value = (50::nat), solver_name_combo_index = 0,
      op_Beta = None, op_SolverName = Some ''A''\<rparr>
     = (Raised SlotNotReadyError,
        \<lparr>currently_updating = True, beta_box_value = 50, solver_name_combo_index = 0,
         op_Beta = None, op_SolverName = Some ''A''\<rparr>)
   \<and> configure_operator_from_gui
     \<lparr>AVAILABLE_SOLVER_NAMES = [''A'', ''B''], DEFAULT_SOLVER_NAME = ''A'', spin_box_round = id\<rparr>
     \<lparr>currently_updating = True, beta_box_value = (50::nat), solver_name_combo_index = 0,
      op_Beta = None, op_SolverName = Some ''A''\<rparr>
     = (ReturnedFalse,
        \<lparr>currently_updating = True, beta_box_value = 50, solver_name_combo_index = 0,
         op_Beta = None, op_SolverName = Some ''A''\<rparr>)"
  using C10_exception_leaves_flag_set
    [of "\<lparr>AVAILABLE_SOLVER_NAMES = [''A'', ''B''], DEFAULT_SOLVER_NAME = ''A'', spin_box_round = id\<rparr>"
        "\<lparr>currently_updating = False, beta_box_value = (50::nat), solver_name_combo_index = 0,
          op_Beta = None, op_SolverName = Some ''A''\<rparr>"]
  by simp

end
